theory Spec2Isabelle
  imports Main "HOL-Library.AList"
begin

section \<open>Python string and container primitives used by views.py\<close>

text \<open>
  Strings are lists of 8-bit characters, so the model covers query strings whose code
  points are below 256. \<open>startswith\<close> is \<^verbatim>\<open>str.startswith\<close>.
\<close>

definition startswith :: "string \<Rightarrow> string \<Rightarrow> bool" where
  "startswith s p = (take (length p) s = p)"

text \<open>
  \<^verbatim>\<open>str.split(sep)\<close> for a non-empty separator: the string is scanned from the left and
  cut at every non-overlapping occurrence of \<open>sep\<close>. The empty separator raises in Python;
  views.py only calls it with the constants \<^verbatim>\<open>'__'\<close> and \<^verbatim>\<open>'.'\<close>, and here an empty separator
  never matches.
\<close>

function py_split_from :: "string \<Rightarrow> string \<Rightarrow> string \<Rightarrow> string list" where
  "py_split_from sep cur [] = [cur]"
| "py_split_from sep cur (c # cs) =
     (if sep \<noteq> [] \<and> take (length sep) (c # cs) = sep
      then cur # py_split_from sep [] (drop (length sep) (c # cs))
      else py_split_from sep (cur @ [c]) cs)"
  by pat_completeness auto
termination
  by (relation "measure (\<lambda>(sep, cur, s). length s)") auto

definition py_split :: "string \<Rightarrow> string \<Rightarrow> string list" where
  "py_split sep s = py_split_from sep [] s"

text \<open>\<^verbatim>\<open>sep.join(parts)\<close>.\<close>

fun py_join :: "string \<Rightarrow> string list \<Rightarrow> string" where
  "py_join sep [] = []"
| "py_join sep [x] = x"
| "py_join sep (x # y # ys) = x @ sep @ py_join sep (y # ys)"

text \<open>
  The characters Python's unicode \<^verbatim>\<open>str.split()\<close>, \<^verbatim>\<open>str.strip()\<close> and \<^verbatim>\<open>int()\<close> treat as
  whitespace, among the code points below 256: 9 to 13, 28 to 32, 133 and 160.
\<close>

definition py_isspace :: "char \<Rightarrow> bool" where
  "py_isspace c =
     (let n = (of_char c :: nat)
      in (9 \<le> n \<and> n \<le> 13) \<or> (28 \<le> n \<and> n \<le> 32) \<or> n = 133 \<or> n = 160)"

text \<open>\<^verbatim>\<open>str.split()\<close> with no argument: the maximal runs of non-whitespace characters.\<close>

fun split_ws_from :: "string \<Rightarrow> string \<Rightarrow> string list" where
  "split_ws_from cur [] = (if cur = [] then [] else [cur])"
| "split_ws_from cur (c # cs) =
     (if py_isspace c
      then (if cur = [] then split_ws_from [] cs else cur # split_ws_from [] cs)
      else split_ws_from (cur @ [c]) cs)"

definition py_split_ws :: "string \<Rightarrow> string list" where
  "py_split_ws s = split_ws_from [] s"

text \<open>
  \<^verbatim>\<open>s.rpartition(c)\<close> for a one-character separator: the text before the last occurrence,
  the separator, the text after it; or two empty strings and \<open>s\<close> when \<open>c\<close> does not occur.
\<close>

definition rpartition :: "char \<Rightarrow> string \<Rightarrow> string \<times> string \<times> string" where
  "rpartition c s =
     (if c \<in> set s
      then (rev (tl (dropWhile (\<lambda>x. x \<noteq> c) (rev s))), [c],
            rev (takeWhile (\<lambda>x. x \<noteq> c) (rev s)))
      else ([], [], s))"

text \<open>
  \<^verbatim>\<open>int(s)\<close> on a string: surrounding whitespace is dropped, one sign is allowed, and the
  rest must be a non-empty run of decimal digits; anything else is \<^verbatim>\<open>ValueError\<close>, here
  \<open>None\<close>. (The digit-group underscores of Python 3.6 and later are not accepted.)
\<close>

definition is_digit :: "char \<Rightarrow> bool" where
  "is_digit c = (let n = (of_char c :: nat) in 48 \<le> n \<and> n \<le> 57)"

definition digit_val :: "char \<Rightarrow> int" where
  "digit_val c = int (of_char c) - 48"

definition py_strip :: "string \<Rightarrow> string" where
  "py_strip s = rev (dropWhile py_isspace (rev (dropWhile py_isspace s)))"

definition digits_int :: "string \<Rightarrow> int option" where
  "digits_int ds =
     (if ds \<noteq> [] \<and> list_all is_digit ds
      then Some (foldl (\<lambda>acc d. 10 * acc + digit_val d) 0 ds)
      else None)"

definition py_int :: "string \<Rightarrow> int option" where
  "py_int s =
     (case py_strip s of
        [] \<Rightarrow> None
      | c # cs \<Rightarrow>
          if c = CHR ''-'' then map_option uminus (digits_int cs)
          else if c = CHR ''+'' then digits_int cs
          else digits_int (c # cs))"

text \<open>
  \<^verbatim>\<open>xs[i]\<close>: a negative index counts from the end, and an index outside the list is
  \<^verbatim>\<open>IndexError\<close>, here \<open>None\<close>.
\<close>

definition py_index :: "'a list \<Rightarrow> int \<Rightarrow> 'a option" where
  "py_index xs i =
     (let n = int (length xs); j = (if i < 0 then n + i else i)
      in if 0 \<le> j \<and> j < n then Some (xs ! nat j) else None)"

text \<open>
  A Python \<^verbatim>\<open>dict\<close> with string keys is an association list with distinct keys in
  insertion order: \<open>AList.update\<close> overwrites in place or appends, \<open>AList.delete\<close> removes,
  \<open>map_of\<close> reads.
\<close>

type_synonym 'v pydict = "(string \<times> 'v) list"

section \<open>The query-string constants of views.py\<close>

definition ORDER_VAR :: string where "ORDER_VAR = ''o''"
definition ORDER_TYPE_VAR :: string where "ORDER_TYPE_VAR = ''ot''"
definition PAGE_VAR :: string where "PAGE_VAR = ''p''"
definition SEARCH_VAR :: string where "SEARCH_VAR = ''q''"
definition ERROR_FLAG :: string where "ERROR_FLAG = ''e''"
definition IGNORED_PARAMS :: "string list" where
  "IGNORED_PARAMS = [ORDER_VAR, ORDER_TYPE_VAR, SEARCH_VAR]"

text \<open>\<^verbatim>\<open>django.db.models.constants.LOOKUP_SEP\<close>.\<close>

definition LOOKUP_SEP :: string where "LOOKUP_SEP = ''__''"

section \<open>The model's meta data and the model admin's configuration\<close>

text \<open>
  What \<open>lookup_allowed\<close> reads of a field: whether it has an attribute \<^verbatim>\<open>rel\<close> (and then
  \<open>None\<close> when \<^verbatim>\<open>field.rel is None\<close>, else the name of \<^verbatim>\<open>field.rel.get_related_field()\<close>),
  or is a \<^verbatim>\<open>ForeignObjectRel\<close> (with the primary-key name of \<^verbatim>\<open>field.model\<close>), or neither.
\<close>

datatype rel_info = HasRel "string option" | IsForeignObjectRel string | NoRel

record field =
  fld_name :: string
  field_rel :: rel_info
  is_many_to_one_rel :: bool

text \<open>An entry of \<^verbatim>\<open>list_filter\<close>: a field path, a pair of a field path and a filter class, or a
  custom filter class (classes are named by a number).\<close>

datatype list_filter_item =
  FilterName string | FilterPair string nat | FilterCallable nat

text \<open>An entry of \<^verbatim>\<open>list_display\<close>: a name, or a callable with its \<^verbatim>\<open>admin_order_field\<close>
  attribute, if it has one.\<close>

datatype list_display_item = DisplayName string | DisplayCallable "string option"

text \<open>One reverse relation of \<^verbatim>\<open>_meta.get_all_related_objects()\<close>.\<close>

record related_object =
  accessor_name :: string
  on_delete_protect :: bool

text \<open>
  \<^verbatim>\<open>model._meta\<close>. \<open>get_field\<close> and \<open>get_field_by_name\<close> are tables from names to fields; a
  name that is not in the table is \<^verbatim>\<open>FieldDoesNotExist\<close>. \<open>related_fkey_lookups\<close> holds each
  lookup dictionary as \<^verbatim>\<open>widgets.url_params_from_lookup_dict\<close> returns it.
\<close>

record model_meta =
  app_label :: string
  model_name :: string
  verbose_name :: string
  pk_name :: string
  pk_attname :: string
  ordering :: "string list"
  related_fkey_lookups :: "string pydict list"
  get_field :: "field pydict"
  get_field_by_name :: "field pydict"
  get_all_related_objects :: "related_object list"

section \<open>IndexView.lookup_allowed\<close>

text \<open>
  The loop over \<^verbatim>\<open>parts[:-1]\<close>: \<open>None\<close> when the loop returns \<^verbatim>\<open>True\<close> from inside (a field
  that does not exist, or one whose \<^verbatim>\<open>rel\<close> is \<^verbatim>\<open>None\<close>), else the final \<^verbatim>\<open>rel_name\<close>. Every
  part is looked up in \<^verbatim>\<open>self.model._meta\<close>, as the source does.
\<close>

fun rel_name_loop :: "model_meta \<Rightarrow> string list \<Rightarrow> string option \<Rightarrow> string option option" where
  "rel_name_loop opts [] rel_name = Some rel_name"
| "rel_name_loop opts (part # rest) rel_name =
     (case map_of (get_field_by_name opts) part of
        None \<Rightarrow> None
      | Some f \<Rightarrow>
          (case field_rel f of
             HasRel None \<Rightarrow> None
           | HasRel (Some n) \<Rightarrow> rel_name_loop opts rest (Some n)
           | IsForeignObjectRel n \<Rightarrow> rel_name_loop opts rest (Some n)
           | NoRel \<Rightarrow> rel_name_loop opts rest None))"

text \<open>\<^verbatim>\<open>parts.pop()\<close> when the list has more than one part and the last one is a query term.\<close>

definition drop_query_term :: "string list \<Rightarrow> string list \<Rightarrow> string list" where
  "drop_query_term query_terms parts =
     (if length parts > 1 \<and> last parts \<in> set query_terms then butlast parts else parts)"

text \<open>
  \<open>lookup_allowed\<close>, with Django's constant \<^verbatim>\<open>QUERY_TERMS\<close> as the parameter \<open>query_terms\<close>.
\<close>

definition lookup_allowed ::
  "string list \<Rightarrow> model_meta \<Rightarrow> list_filter_item list \<Rightarrow> string \<Rightarrow> string \<Rightarrow> bool" where
  "lookup_allowed query_terms opts list_filter lookup v =
     (if list_ex (\<lambda>l. list_ex (\<lambda>(k, v'). k = lookup \<and> v' = v) l) (related_fkey_lookups opts)
      then True
      else
        let parts = drop_query_term query_terms (py_split LOOKUP_SEP lookup)
        in case rel_name_loop opts (butlast parts) None of
             None \<Rightarrow> True
           | Some rel_name \<Rightarrow>
               let parts' =
                     (if rel_name \<noteq> None \<and> rel_name \<noteq> Some [] \<and> length parts > 1
                         \<and> Some (last parts) = rel_name
                      then butlast parts else parts)
               in if length parts' = 1 then True
                  else FilterName (py_join LOOKUP_SEP parts') \<in> set list_filter)"

text \<open>Django's \<^verbatim>\<open>QUERY_TERMS\<close> (django.db.models.sql.constants), for the examples.\<close>

definition QUERY_TERMS :: "string list" where
  "QUERY_TERMS =
     [''exact'', ''iexact'', ''contains'', ''icontains'', ''gt'', ''gte'', ''lt'', ''lte'',
      ''in'', ''startswith'', ''istartswith'', ''endswith'', ''iendswith'', ''range'',
      ''year'', ''month'', ''day'', ''week_day'', ''hour'', ''minute'', ''second'',
      ''isnull'', ''search'', ''regex'', ''iregex'']"

section \<open>Exceptions, querysets, and the view's collaborators\<close>

text \<open>
  The exceptions views.py raises, catches or lets pass. \<open>DisallowedModelAdminLookup\<close> is a
  Django \<^verbatim>\<open>SuspiciousOperation\<close>; \<open>EmptyPage\<close> and \<open>PageNotAnInteger\<close> are the paginator's
  \<^verbatim>\<open>InvalidPage\<close> exceptions.
\<close>

datatype error =
    Http404
  | DisallowedModelAdminLookup string
  | IncorrectLookupParameters
  | SuspiciousOperation
  | ImproperlyConfigured
  | FieldDoesNotExist
  | AttributeError
  | UnboundLocalError
  | ZeroDivisionError
  | ProtectedError
  | MultipleObjectsReturned
  | EmptyPage
  | PageNotAnInteger
  | TypeError
  | OtherError string

text \<open>
  A queryset is lazy: it records the calls made on it. \<open>Q lookup v\<close> is
  \<^verbatim>\<open>models.Q(**{lookup: v})\<close>, \<open>Or\<close> is \<^verbatim>\<open>operator.or_\<close> on two \<^verbatim>\<open>Q\<close> objects. A value of a
  lookup parameter is what \<^verbatim>\<open>prepare_lookup_value\<close> returns: the string, a list, or a boolean.
\<close>

datatype q = Q string string | Or q q

datatype lookup_value = VStr string | VList "string list" | VBool bool

datatype select_related = SRFalse | SRTrue | SRFields "string list"

datatype qs_filter = FilterQ q | FilterKwargs "lookup_value pydict"

record queryset =
  qs_source :: nat
  qs_filters :: "qs_filter list"
  order_by :: "string list"
  qs_select_related :: select_related
  qs_distinct :: bool

definition qs_filter_q :: "queryset \<Rightarrow> q \<Rightarrow> queryset" where
  "qs_filter_q qs x = qs\<lparr>qs_filters := qs_filters qs @ [FilterQ x]\<rparr>"

definition qs_order_by :: "queryset \<Rightarrow> string list \<Rightarrow> queryset" where
  "qs_order_by qs ord = qs\<lparr>order_by := ord\<rparr>"

definition qs_set_distinct :: "queryset \<Rightarrow> queryset" where
  "qs_set_distinct qs = qs\<lparr>qs_distinct := True\<rparr>"

text \<open>A list filter object: only \<^verbatim>\<open>has_output()\<close> is read here; its \<^verbatim>\<open>queryset\<close> method is
  the framework's.\<close>

record filter_spec =
  spec_id :: nat
  has_output :: bool

text \<open>A row of the model's table, and a user.\<close>

record obj =
  pk :: string
  label :: string

record user =
  username :: string
  is_authenticated :: bool

text \<open>
  The model admin, as the views read it: \<open>admin_ordering\<close> is
  \<^verbatim>\<open>model_admin.get_ordering(request)\<close>, \<open>admin_attrs\<close> the attributes of the model admin by
  name, each with its \<^verbatim>\<open>admin_order_field\<close> if it has one, \<open>base_queryset\<close> is
  \<^verbatim>\<open>model_admin.get_queryset(request)\<close>, and the URLs and template names are those its
  \<^verbatim>\<open>get_..._url\<close> and \<^verbatim>\<open>get_..._template\<close> methods return.
\<close>

record model_admin =
  is_pagemodel :: bool
  list_display :: "list_display_item list"
  list_filter :: "list_filter_item list"
  search_fields :: "string list"
  list_per_page :: nat
  list_select_related :: select_related
  admin_ordering :: "string list"
  admin_attrs :: "string option pydict"
  base_queryset :: queryset
  index_url :: string
  choose_parent_url :: string
  index_template :: string
  inspect_template :: string
  create_template :: string
  edit_template :: string
  confirm_delete_template :: string
  choose_parent_template :: string

text \<open>The permission helper: every check is delegated to it.\<close>

record permission_helper =
  allow_list_view :: "user \<Rightarrow> bool"
  has_list_permission :: "user \<Rightarrow> bool"
  has_add_permission :: "user \<Rightarrow> bool"
  can_edit_object :: "user \<Rightarrow> obj \<Rightarrow> bool"
  can_delete_object :: "user \<Rightarrow> obj \<Rightarrow> bool"
  can_unpublish_object :: "user \<Rightarrow> obj \<Rightarrow> bool"
  can_copy_object :: "user \<Rightarrow> obj \<Rightarrow> bool"
  get_valid_parent_pages :: "user \<Rightarrow> obj list"

text \<open>
  The attributes \<^verbatim>\<open>WMABaseView.__init__\<close> sets: the model admin, \<^verbatim>\<open>model._meta\<close> as \<open>opts\<close>, the
  permission helper, and of \<^verbatim>\<open>self.model\<close> its attributes by name (each with its
  \<^verbatim>\<open>admin_order_field\<close>, if any).
\<close>

record wma_view =
  the_model_admin :: model_admin
  opts :: model_meta
  model_attrs :: "string option pydict"
  the_permission_helper :: permission_helper

section \<open>IndexView: ordering\<close>

text \<open>\<open>get_default_ordering\<close>: the model admin's ordering if it is not empty, else the
  model's, else nothing.\<close>

definition get_default_ordering :: "wma_view \<Rightarrow> string list" where
  "get_default_ordering vw =
     (if admin_ordering (the_model_admin vw) \<noteq> [] then admin_ordering (the_model_admin vw)
      else if ordering (opts vw) \<noteq> [] then ordering (opts vw)
      else [])"

text \<open>
  \<open>get_ordering_field\<close>: the name of the model field, or, when there is no such field, the
  \<^verbatim>\<open>admin_order_field\<close> of the callable, of the model admin's attribute or of the model's
  attribute. The last \<^verbatim>\<open>getattr(self.model, field_name)\<close> has no default, so a name that is
  none of these raises \<^verbatim>\<open>AttributeError\<close>.
\<close>

definition get_ordering_field :: "wma_view \<Rightarrow> list_display_item \<Rightarrow> error + string option" where
  "get_ordering_field vw item =
     (case item of
        DisplayCallable admin_order_field \<Rightarrow> Inr admin_order_field
      | DisplayName name \<Rightarrow>
          (case map_of (get_field (opts vw)) name of
             Some f \<Rightarrow> Inr (Some (fld_name f))
           | None \<Rightarrow>
               (case map_of (admin_attrs (the_model_admin vw)) name of
                  Some admin_order_field \<Rightarrow> Inr admin_order_field
                | None \<Rightarrow>
                    (case map_of (model_attrs vw) name of
                       Some admin_order_field \<Rightarrow> Inr admin_order_field
                     | None \<Rightarrow> Inl AttributeError))))"

text \<open>
  The body of the loop over \<^verbatim>\<open>order_params\<close> in \<open>get_ordering\<close>, for one parameter \<open>p\<close>: the
  fields it appends to \<^verbatim>\<open>ordering\<close> (none when it is skipped). \<^verbatim>\<open>ValueError\<close> and
  \<^verbatim>\<open>IndexError\<close> are caught there and skip the parameter.
\<close>

definition order_param_fields :: "wma_view \<Rightarrow> string \<Rightarrow> error + string list" where
  "order_param_fields vw p =
     (case rpartition CHR ''-'' p of
        (none, pfx, idx) \<Rightarrow>
          (case py_int idx of
             None \<Rightarrow> Inr []
           | Some i \<Rightarrow>
               (case py_index (list_display (the_model_admin vw)) i of
                  None \<Rightarrow> Inr []
                | Some item \<Rightarrow>
                    (case get_ordering_field vw item of
                       Inl e \<Rightarrow> Inl e
                     | Inr None \<Rightarrow> Inr []
                     | Inr (Some order_field) \<Rightarrow>
                         if order_field = [] then Inr []
                         else if startswith order_field ''-'' \<and> pfx = ''-''
                         then Inr [tl order_field]
                         else Inr [pfx @ order_field]))))"

fun order_params_loop :: "wma_view \<Rightarrow> string list \<Rightarrow> error + string list" where
  "order_params_loop vw [] = Inr []"
| "order_params_loop vw (p # ps) =
     (case order_param_fields vw p of
        Inl e \<Rightarrow> Inl e
      | Inr fs \<Rightarrow>
          (case order_params_loop vw ps of
             Inl e \<Rightarrow> Inl e
           | Inr rest \<Rightarrow> Inr (fs @ rest)))"

text \<open>The ordering before the primary key is ensured: the query string's or the default one,
  then the queryset's own.\<close>

definition combined_ordering ::
  "wma_view \<Rightarrow> string pydict \<Rightarrow> queryset \<Rightarrow> error + string list" where
  "combined_ordering vw params qs =
     (case (case map_of params ORDER_VAR of
              None \<Rightarrow> Inr (get_default_ordering vw)
            | Some o_param \<Rightarrow> order_params_loop vw (py_split ''.'' o_param)) of
        Inl e \<Rightarrow> Inl e
      | Inr ord \<Rightarrow> Inr (ord @ order_by qs))"

definition pk_orderings :: "wma_view \<Rightarrow> string list" where
  "pk_orderings vw = [''pk'', ''-pk'', pk_name (opts vw), ''-'' @ pk_name (opts vw)]"

definition get_ordering :: "wma_view \<Rightarrow> string pydict \<Rightarrow> queryset \<Rightarrow> error + string list" where
  "get_ordering vw params qs =
     (case combined_ordering vw params qs of
        Inl e \<Rightarrow> Inl e
      | Inr ord \<Rightarrow>
          if set ord \<inter> set (pk_orderings vw) = {} then Inr (ord @ [''-pk''])
          else Inr ord)"

text \<open>\<open>get_filters_params\<close>: a copy of the parameters (of \<^verbatim>\<open>self.params\<close> when none are given
  or the given dictionary is empty) without the ignored ones.\<close>

definition get_filters_params :: "string pydict \<Rightarrow> string pydict option \<Rightarrow> string pydict" where
  "get_filters_params self_params params =
     (let ps = (case params of None \<Rightarrow> self_params
                | Some d \<Rightarrow> if d = [] then self_params else d)
      in foldl (\<lambda>lookup_params ignored. AList.delete ignored lookup_params) ps IGNORED_PARAMS)"

section \<open>The framework under the views\<close>

text \<open>The database: the rows of the model's default manager, and for every reverse relation
  (by accessor name) and row (by primary key) the rows related to it.\<close>

record db =
  objects :: "obj list"
  related_rows :: "((string \<times> string) \<times> obj list) list"

text \<open>
  What the views call in Django and Wagtail and this repository does not define, as
  parameters: the constant \<^verbatim>\<open>QUERY_TERMS\<close>; \<^verbatim>\<open>lookup_needs_distinct(opts, path)\<close>, which raises
  \<^verbatim>\<open>FieldDoesNotExist\<close> on a path that names no field; \<^verbatim>\<open>quote\<close>; the construction of a list
  filter from an entry of \<^verbatim>\<open>list_filter\<close> (it may raise, may give a falsy filter, and removes
  the parameters it uses from \<^verbatim>\<open>lookup_params\<close>); the filter's \<^verbatim>\<open>queryset\<close> method;
  \<^verbatim>\<open>prepare_lookup_value\<close>; the exception, if any, that \<^verbatim>\<open>qs.filter(**kwargs)\<close> raises; the
  evaluation of a queryset; \<^verbatim>\<open>instance.delete()\<close>; the validation and saving of the model form
  (\<open>None\<close> when the form is not valid, else the saved instance and the database after
  saving); the validation of the parent chooser form (the chosen parent, if valid); and
  \<^verbatim>\<open>wagtail.wagtailcore.__version__\<close>.
\<close>

record framework =
  query_terms :: "string list"
  lookup_needs_distinct :: "string \<Rightarrow> error + bool"
  quote :: "string \<Rightarrow> string"
  new_filter_spec :: "list_filter_item \<Rightarrow> string pydict \<Rightarrow> error + (filter_spec option \<times> string pydict)"
  spec_queryset :: "filter_spec \<Rightarrow> queryset \<Rightarrow> queryset option"
  prepare_lookup_value :: "string \<Rightarrow> string \<Rightarrow> lookup_value"
  filter_kwargs_error :: "lookup_value pydict \<Rightarrow> error option"
  run_query :: "db \<Rightarrow> queryset \<Rightarrow> obj list"
  orm_delete :: "db \<Rightarrow> obj \<Rightarrow> error + db"
  form_save :: "db \<Rightarrow> (string \<times> string) list \<Rightarrow> obj option \<Rightarrow> (obj \<times> db) option"
  parent_form_valid :: "obj list \<Rightarrow> (string \<times> string) list \<Rightarrow> obj option"
  wagtail_version :: string

section \<open>IndexView: search\<close>

text \<open>\<open>construct_search\<close>, the local function of \<open>get_search_results\<close>.\<close>

definition construct_search :: "string \<Rightarrow> string" where
  "construct_search field_name =
     (if startswith field_name ''^'' then tl field_name @ ''__istartswith''
      else if startswith field_name ''='' then tl field_name @ ''__iexact''
      else if startswith field_name ''@'' then tl field_name @ ''__search''
      else field_name @ ''__icontains'')"

text \<open>\<^verbatim>\<open>reduce(f, xs)\<close> with no initial value: a left fold, \<^verbatim>\<open>TypeError\<close> on an empty list.\<close>

definition py_reduce :: "('a \<Rightarrow> 'a \<Rightarrow> 'a) \<Rightarrow> 'a list \<Rightarrow> error + 'a" where
  "py_reduce f xs = (case xs of [] \<Rightarrow> Inl TypeError | x # rest \<Rightarrow> Inr (foldl f x rest))"

text \<open>The loop over the bits of the search term: one \<^verbatim>\<open>filter\<close> call per bit.\<close>

fun search_bits_loop :: "string list \<Rightarrow> queryset \<Rightarrow> string list \<Rightarrow> error + queryset" where
  "search_bits_loop orm_lookups qs [] = Inr qs"
| "search_bits_loop orm_lookups qs (b # rest) =
     (case py_reduce Or (map (\<lambda>orm_lookup. Q orm_lookup b) orm_lookups) of
        Inl e \<Rightarrow> Inl e
      | Inr or_query \<Rightarrow> search_bits_loop orm_lookups (qs_filter_q qs or_query) rest)"

text \<open>The loop that sets \<^verbatim>\<open>use_distinct\<close> and breaks at the first lookup that needs it.\<close>

fun search_needs_distinct :: "framework \<Rightarrow> string list \<Rightarrow> error + bool" where
  "search_needs_distinct fw [] = Inr False"
| "search_needs_distinct fw (search_spec # rest) =
     (case lookup_needs_distinct fw search_spec of
        Inl e \<Rightarrow> Inl e
      | Inr True \<Rightarrow> Inr True
      | Inr False \<Rightarrow> search_needs_distinct fw rest)"

definition get_search_results ::
  "framework \<Rightarrow> wma_view \<Rightarrow> queryset \<Rightarrow> string \<Rightarrow> error + (queryset \<times> bool)" where
  "get_search_results fw vw qs search_term =
     (if search_fields (the_model_admin vw) \<noteq> [] \<and> search_term \<noteq> []
      then
        let orm_lookups = map construct_search (search_fields (the_model_admin vw))
        in case search_bits_loop orm_lookups qs (py_split_ws search_term) of
             Inl e \<Rightarrow> Inl e
           | Inr qs' \<Rightarrow>
               (case search_needs_distinct fw orm_lookups of
                  Inl e \<Rightarrow> Inl e
                | Inr use_distinct \<Rightarrow> Inr (qs', use_distinct))
      else Inr (qs, False))"


section \<open>IndexView: filters and the queryset\<close>

text \<open>The first loop of \<open>get_filters\<close>: the first parameter that is not allowed raises.\<close>

fun check_lookups_allowed ::
  "framework \<Rightarrow> wma_view \<Rightarrow> string pydict \<Rightarrow> error + unit" where
  "check_lookups_allowed fw vw [] = Inr ()"
| "check_lookups_allowed fw vw ((k, v) # rest) =
     (if \<not> lookup_allowed (query_terms fw) (opts vw) (list_filter (the_model_admin vw)) k v
      then Inl (DisallowedModelAdminLookup k)
      else check_lookups_allowed fw vw rest)"

text \<open>
  The loop over \<^verbatim>\<open>self.list_filter\<close>. For an entry that is not a callable,
  \<^verbatim>\<open>use_distinct or lookup_needs_distinct(self.opts, field_path)\<close> only calls the function
  while \<^verbatim>\<open>use_distinct\<close> is false. Field paths are given by name.
\<close>

fun filter_specs_loop ::
  "framework \<Rightarrow> list_filter_item list \<Rightarrow> string pydict \<Rightarrow> bool \<Rightarrow>
   error + (filter_spec list \<times> string pydict \<times> bool)" where
  "filter_specs_loop fw [] lookup_params use_distinct = Inr ([], lookup_params, use_distinct)"
| "filter_specs_loop fw (item # rest) lookup_params use_distinct =
     (case new_filter_spec fw item lookup_params of
        Inl e \<Rightarrow> Inl e
      | Inr (spec, lookup_params') \<Rightarrow>
          (case (case item of
                   FilterCallable c \<Rightarrow> Inr use_distinct
                 | FilterName field_path \<Rightarrow>
                     if use_distinct then Inr True else lookup_needs_distinct fw field_path
                 | FilterPair field_path c \<Rightarrow>
                     if use_distinct then Inr True else lookup_needs_distinct fw field_path) of
             Inl e \<Rightarrow> Inl e
           | Inr use_distinct' \<Rightarrow>
               (case filter_specs_loop fw rest lookup_params' use_distinct' of
                  Inl e \<Rightarrow> Inl e
                | Inr (specs, lookup_params'', use_distinct'') \<Rightarrow>
                    Inr ((case spec of
                            None \<Rightarrow> []
                          | Some sp \<Rightarrow> if has_output sp then [sp] else []) @ specs,
                         lookup_params'', use_distinct''))))"

text \<open>The last loop of \<open>get_filters\<close>, inside its \<^verbatim>\<open>try\<close>: every remaining parameter is
  prepared, and asked whether it needs \<^verbatim>\<open>distinct()\<close> while none has.\<close>

fun prepare_params_loop ::
  "framework \<Rightarrow> string pydict \<Rightarrow> bool \<Rightarrow> error + (lookup_value pydict \<times> bool)" where
  "prepare_params_loop fw [] use_distinct = Inr ([], use_distinct)"
| "prepare_params_loop fw ((k, v) # rest) use_distinct =
     (case (if use_distinct then Inr True else lookup_needs_distinct fw k) of
        Inl e \<Rightarrow> Inl e
      | Inr use_distinct' \<Rightarrow>
          (case prepare_params_loop fw rest use_distinct' of
             Inl e \<Rightarrow> Inl e
           | Inr (prepared, use_distinct'') \<Rightarrow>
               Inr ((k, prepare_lookup_value fw k v) # prepared, use_distinct'')))"

text \<open>\<open>get_filters\<close> returns the filters, whether there are any, the remaining parameters and
  whether \<^verbatim>\<open>distinct()\<close> is needed. \<^verbatim>\<open>FieldDoesNotExist\<close> in the last loop is re-raised as
  \<^verbatim>\<open>IncorrectLookupParameters\<close>.\<close>

definition get_filters ::
  "framework \<Rightarrow> wma_view \<Rightarrow> string pydict \<Rightarrow>
   error + (filter_spec list \<times> bool \<times> lookup_value pydict \<times> bool)" where
  "get_filters fw vw self_params =
     (let lookup_params = get_filters_params self_params None
      in case check_lookups_allowed fw vw lookup_params of
           Inl e \<Rightarrow> Inl e
         | Inr u \<Rightarrow>
             (case filter_specs_loop fw (list_filter (the_model_admin vw)) lookup_params False of
                Inl e \<Rightarrow> Inl e
              | Inr (filter_specs, remaining, use_distinct) \<Rightarrow>
                  (case prepare_params_loop fw remaining use_distinct of
                     Inl e \<Rightarrow> Inl (if e = FieldDoesNotExist then IncorrectLookupParameters else e)
                   | Inr (prepared, use_distinct') \<Rightarrow>
                       Inr (filter_specs, filter_specs \<noteq> [], prepared, use_distinct'))))"

text \<open>\<open>has_related_field_in_list_display\<close> and \<open>apply_select_related\<close>.\<close>

definition has_related_field_in_list_display :: "wma_view \<Rightarrow> bool" where
  "has_related_field_in_list_display vw =
     list_ex (\<lambda>item. case item of
                 DisplayCallable a \<Rightarrow> False
               | DisplayName name \<Rightarrow>
                   (case map_of (get_field (opts vw)) name of
                      None \<Rightarrow> False
                    | Some f \<Rightarrow> is_many_to_one_rel f))
       (list_display (the_model_admin vw))"

definition apply_select_related :: "wma_view \<Rightarrow> queryset \<Rightarrow> queryset" where
  "apply_select_related vw qs =
     (case list_select_related (the_model_admin vw) of
        SRTrue \<Rightarrow> qs\<lparr>qs_select_related := SRTrue\<rparr>
      | SRFalse \<Rightarrow>
          if has_related_field_in_list_display vw then qs\<lparr>qs_select_related := SRTrue\<rparr> else qs
      | SRFields fs \<Rightarrow> if fs \<noteq> [] then qs\<lparr>qs_select_related := SRFields fs\<rparr> else qs)"

text \<open>The loop in which every list filter may replace the queryset.\<close>

fun apply_filter_specs :: "framework \<Rightarrow> filter_spec list \<Rightarrow> queryset \<Rightarrow> queryset" where
  "apply_filter_specs fw [] qs = qs"
| "apply_filter_specs fw (sp # rest) qs =
     apply_filter_specs fw rest (case spec_queryset fw sp qs of None \<Rightarrow> qs | Some new_qs \<Rightarrow> new_qs)"

text \<open>The exceptions \<open>get_queryset\<close> re-raises as they are: \<^verbatim>\<open>SuspiciousOperation\<close> (of which
  \<^verbatim>\<open>DisallowedModelAdminLookup\<close> is a subclass) and \<^verbatim>\<open>ImproperlyConfigured\<close>.\<close>

fun reraised_as_is :: "error \<Rightarrow> bool" where
  "reraised_as_is SuspiciousOperation = True"
| "reraised_as_is (DisallowedModelAdminLookup k) = True"
| "reraised_as_is ImproperlyConfigured = True"
| "reraised_as_is e = False"

definition truthy_select_related :: "select_related \<Rightarrow> bool" where
  "truthy_select_related sr = (case sr of SRFalse \<Rightarrow> False | SRTrue \<Rightarrow> True | SRFields fs \<Rightarrow> fs \<noteq> [])"

text \<open>\<open>IndexView.get_queryset\<close>, from \<^verbatim>\<open>self.params\<close> and \<^verbatim>\<open>self.query\<close>.\<close>

definition get_queryset ::
  "framework \<Rightarrow> wma_view \<Rightarrow> string pydict \<Rightarrow> string \<Rightarrow> error + queryset" where
  "get_queryset fw vw self_params query =
     (case get_filters fw vw self_params of
        Inl e \<Rightarrow> Inl e
      | Inr (filter_specs, has_filters, remaining_lookup_params, filters_use_distinct) \<Rightarrow>
          (let qs = apply_filter_specs fw filter_specs (base_queryset (the_model_admin vw))
           in (case filter_kwargs_error fw remaining_lookup_params of
                 Some e \<Rightarrow> Inl (if reraised_as_is e then e else IncorrectLookupParameters)
               | None \<Rightarrow>
                   (let qs1 = qs\<lparr>qs_filters :=
                                  qs_filters qs @ [FilterKwargs remaining_lookup_params]\<rparr>;
                        qs2 = (if \<not> truthy_select_related (qs_select_related qs1)
                               then apply_select_related vw qs1 else qs1)
                    in (case get_ordering vw self_params qs2 of
                          Inl e \<Rightarrow> Inl e
                        | Inr ord \<Rightarrow>
                            (case get_search_results fw vw (qs_order_by qs2 ord) query of
                               Inl e \<Rightarrow> Inl e
                             | Inr (qs3, search_distinct) \<Rightarrow>
                                 if filters_use_distinct \<or> search_distinct
                                 then Inr (qs_set_distinct qs3)
                                 else Inr qs3))))))"

section \<open>Requests, responses and the state the views change\<close>

text \<open>\<open>HttpOther\<close> stands for a method that none of the views has a handler for.\<close>

datatype http_method = HttpGet | HttpPost | HttpOther

text \<open>\<^verbatim>\<open>request.GET\<close> and \<^verbatim>\<open>request.POST\<close> are the pairs of the query string and of the form
  data, in their order.\<close>

record request =
  req_method :: http_method
  req_user :: user
  GET :: "(string \<times> string) list"
  POST :: "(string \<times> string) list"

text \<open>The messages of \<^verbatim>\<open>wagtail.wagtailadmin.messages\<close>, by what they say.\<close>

datatype message =
    ErrorNoPermission
  | SuccessCreated obj
  | SuccessUpdated obj
  | ErrorNotCreated
  | ErrorNotSaved
  | SuccessDeleted obj
  | ErrorNotDeleted obj

text \<open>What a view can change: the database, the messages queued for the user, and the
  session's \<^verbatim>\<open>return_to_index_url\<close>.\<close>

record world =
  the_db :: db
  messages :: "message list"
  return_to_index_url :: "string option"

record page =
  number :: int
  object_list :: "obj list"

datatype ctx_value =
    CView
  | CObj obj
  | CObjs "obj list"
  | CBool bool
  | CNat nat
  | CPage page
  | CPaginator nat nat
  | CForm
  | COther

text \<open>A response: \<^verbatim>\<open>redirect(to, *args)\<close>, the redirect to the login page that
  \<^verbatim>\<open>login_required\<close> sends, a rendered template with its context, or 405.\<close>

datatype response =
    Redirect string "string list"
  | RedirectToLogin
  | Render string "ctx_value pydict"
  | MethodNotAllowed

type_synonym outcome = "error + (response \<times> world)"

definition permission_denied_response :: "world \<Rightarrow> response \<times> world" where
  "permission_denied_response w =
     (Redirect ''wagtailadmin_home'' [], w\<lparr>messages := messages w @ [ErrorNoPermission]\<rparr>)"

text \<open>\<^verbatim>\<open>@method_decorator(login_required)\<close>: the view runs for an authenticated user only.\<close>

definition login_required :: "request \<Rightarrow> world \<Rightarrow> outcome \<Rightarrow> outcome" where
  "login_required request w view_outcome =
     (if is_authenticated (req_user request) then view_outcome else Inr (RedirectToLogin, w))"

text \<open>\<open>WMABaseView.dispatch\<close>: behind \<^verbatim>\<open>login_required\<close>, the handler of the request's method.\<close>

definition WMABaseView_dispatch :: "request \<Rightarrow> world \<Rightarrow> outcome \<Rightarrow> outcome" where
  "WMABaseView_dispatch request w handler_outcome = login_required request w handler_outcome"

definition prime_session_for_redirection :: "wma_view \<Rightarrow> world \<Rightarrow> world" where
  "prime_session_for_redirection vw w =
     w\<lparr>return_to_index_url := Some (index_url (the_model_admin vw))\<rparr>"

text \<open>The page URL names, which depend on the Wagtail version.\<close>

definition before_v1_1 :: "framework \<Rightarrow> bool" where
  "before_v1_1 fw = (startswith (wagtail_version fw) ''1.0'' \<or> startswith (wagtail_version fw) ''0.'')"

definition PAGES_CREATE_URL_NAME :: "framework \<Rightarrow> string" where
  "PAGES_CREATE_URL_NAME fw =
     (if before_v1_1 fw then ''wagtailadmin_pages_create'' else ''wagtailadmin_pages:add'')"

definition PAGES_EDIT_URL_NAME :: "framework \<Rightarrow> string" where
  "PAGES_EDIT_URL_NAME fw =
     (if before_v1_1 fw then ''wagtailadmin_pages_edit'' else ''wagtailadmin_pages:edit'')"

definition PAGES_UNPUBLISH_URL_NAME :: "framework \<Rightarrow> string" where
  "PAGES_UNPUBLISH_URL_NAME fw =
     (if before_v1_1 fw then ''wagtailadmin_pages_unpublish'' else ''wagtailadmin_pages:unpublish'')"

definition PAGES_DELETE_URL_NAME :: "framework \<Rightarrow> string" where
  "PAGES_DELETE_URL_NAME fw =
     (if before_v1_1 fw then ''wagtailadmin_pages_delete'' else ''wagtailadmin_pages:delete'')"

definition PAGES_COPY_URL_NAME :: "framework \<Rightarrow> string" where
  "PAGES_COPY_URL_NAME fw =
     (if before_v1_1 fw then ''wagtailadmin_pages_copy'' else ''wagtailadmin_pages:copy'')"

section \<open>IndexView: dispatch, pagination and rendering\<close>

text \<open>\<^verbatim>\<open>QueryDict.get(key)\<close> is the last value of the key; \<^verbatim>\<open>dict(QueryDict.items())\<close> has every
  key once, with its last value.\<close>

definition querydict_get :: "(string \<times> string) list \<Rightarrow> string \<Rightarrow> string option" where
  "querydict_get d k = map_of (rev d) k"

definition querydict_items :: "(string \<times> string) list \<Rightarrow> string pydict" where
  "querydict_items d = foldl (\<lambda>acc (k, v). AList.update k v acc) [] d"

text \<open>What \<open>IndexView.dispatch\<close> stores in \<^verbatim>\<open>self.page_num\<close>, \<^verbatim>\<open>self.params\<close> and
  \<^verbatim>\<open>self.query\<close>.\<close>

definition index_page_num :: "request \<Rightarrow> int" where
  "index_page_num request =
     (case querydict_get (GET request) PAGE_VAR of
        None \<Rightarrow> 0
      | Some s \<Rightarrow> (case py_int s of None \<Rightarrow> 0 | Some n \<Rightarrow> n))"

definition index_params :: "request \<Rightarrow> string pydict" where
  "index_params request =
     AList.delete ERROR_FLAG (AList.delete PAGE_VAR (querydict_items (GET request)))"

definition index_query :: "request \<Rightarrow> string" where
  "index_query request =
     (case querydict_get (GET request) SEARCH_VAR of None \<Rightarrow> [] | Some s \<Rightarrow> s)"

text \<open>
  Django's \<^verbatim>\<open>Paginator(object_list, per_page).page(number)\<close>, with no orphans and an empty
  first page allowed: a number below 1 or above the number of pages is \<^verbatim>\<open>EmptyPage\<close>; the
  number of pages is the count (at least 1) divided by \<open>per_page\<close>, rounded up, and
  dividing by zero raises.
\<close>

definition num_pages :: "nat \<Rightarrow> nat \<Rightarrow> error + nat" where
  "num_pages per_page n =
     (if per_page = 0 then Inl ZeroDivisionError
      else Inr ((max 1 n + per_page - 1) div per_page))"

definition paginator_page :: "nat \<Rightarrow> obj list \<Rightarrow> int \<Rightarrow> error + page" where
  "paginator_page per_page rows n =
     (if n < 1 then Inl EmptyPage
      else case num_pages per_page (length rows) of
             Inl e \<Rightarrow> Inl e
           | Inr np \<Rightarrow>
               if n > int np then Inl EmptyPage
               else Inr \<lparr>number = n,
                         object_list = take per_page (drop (nat (n - 1) * per_page) rows)\<rparr>)"

definition is_invalid_page :: "error \<Rightarrow> bool" where
  "is_invalid_page e = (e = EmptyPage \<or> e = PageNotAnInteger)"

definition IndexView_get_context_data ::
  "framework \<Rightarrow> wma_view \<Rightarrow> request \<Rightarrow> world \<Rightarrow> error + ctx_value pydict" where
  "IndexView_get_context_data fw vw request w =
     (let all_count = length (run_query fw (the_db w) (base_queryset (the_model_admin vw)))
      in (case get_queryset fw vw (index_params request) (index_query request) of
            Inl e \<Rightarrow> Inl e
          | Inr queryset \<Rightarrow>
              (let rows = run_query fw (the_db w) queryset;
                   per_page = list_per_page (the_model_admin vw)
               in (case (case paginator_page per_page rows (index_page_num request + 1) of
                           Inl e \<Rightarrow> if is_invalid_page e then paginator_page per_page rows 1 else Inl e
                         | Inr page_obj \<Rightarrow> Inr page_obj) of
                     Inl e \<Rightarrow> Inl e
                   | Inr page_obj \<Rightarrow>
                       Inr ([(''view'', CView),
                             (''all_count'', CNat all_count),
                             (''result_count'', CNat (length rows)),
                             (''paginator'', CPaginator (length rows) per_page),
                             (''page_obj'', CPage page_obj),
                             (''object_list'', CObjs (object_list page_obj)),
                             (''has_add_permission'',
                              CBool (has_add_permission (the_permission_helper vw) (req_user request)))]
                            @ (if is_pagemodel (the_model_admin vw)
                               then [(''no_valid_parents'',
                                      CBool (get_valid_parent_pages (the_permission_helper vw)
                                               (req_user request) = [])),
                                     (''required_parent_types'', COther)]
                               else []))))))"

definition IndexView_get :: "framework \<Rightarrow> wma_view \<Rightarrow> request \<Rightarrow> world \<Rightarrow> outcome" where
  "IndexView_get fw vw request w =
     (case IndexView_get_context_data fw vw request w of
        Inl e \<Rightarrow> Inl e
      | Inr ctx \<Rightarrow>
          Inr (Render (index_template (the_model_admin vw)) ctx,
               (case return_to_index_url w of
                  None \<Rightarrow> w
                | Some u \<Rightarrow> if u \<noteq> [] then w\<lparr>return_to_index_url := None\<rparr> else w)))"

text \<open>\<open>IndexView.dispatch\<close>: the queryset is built before the permission is checked.\<close>

definition IndexView_dispatch :: "framework \<Rightarrow> wma_view \<Rightarrow> request \<Rightarrow> world \<Rightarrow> outcome" where
  "IndexView_dispatch fw vw request w =
     login_required request w
       (case get_queryset fw vw (index_params request) (index_query request) of
          Inl e \<Rightarrow> Inl e
        | Inr queryset \<Rightarrow>
            if \<not> allow_list_view (the_permission_helper vw) (req_user request)
            then Inr (permission_denied_response w)
            else WMABaseView_dispatch request w
                   (case req_method request of
                      HttpGet \<Rightarrow> IndexView_get fw vw request w
                    | HttpPost \<Rightarrow> Inr (MethodNotAllowed, w)
                    | HttpOther \<Rightarrow> Inr (MethodNotAllowed, w)))"

section \<open>The views of one object\<close>

text \<open>\<^verbatim>\<open>get_object_or_404(queryset)\<close> on the rows the queryset selects.\<close>

definition get_object_or_404 :: "obj list \<Rightarrow> error + obj" where
  "get_object_or_404 rows =
     (case rows of
        [] \<Rightarrow> Inl Http404
      | [x] \<Rightarrow> Inr x
      | x # y # rest \<Rightarrow> Inl MultipleObjectsReturned)"

record object_view =
  base_view :: wma_view
  object_id :: string
  pk_safe :: string
  the_instance :: obj

text \<open>\<open>ObjectSpecificView.__init__\<close>: the rows of the default manager are filtered by the
  primary key attribute being \<^verbatim>\<open>self.pk_safe\<close>, the quoted object id.\<close>

definition ObjectSpecificView_init ::
  "framework \<Rightarrow> wma_view \<Rightarrow> db \<Rightarrow> string \<Rightarrow> error + object_view" where
  "ObjectSpecificView_init fw vw database oid =
     (let safe = quote fw oid;
          object_qs = filter (\<lambda>x. pk x = safe) (objects database)
      in case get_object_or_404 object_qs of
           Inl e \<Rightarrow> Inl e
         | Inr inst \<Rightarrow>
             Inr \<lparr>base_view = vw, object_id = oid, pk_safe = safe, the_instance = inst\<rparr>)"

definition InspectView_dispatch :: "framework \<Rightarrow> object_view \<Rightarrow> request \<Rightarrow> world \<Rightarrow> outcome" where
  "InspectView_dispatch fw ov request w =
     login_required request w
       (if \<not> has_list_permission (the_permission_helper (base_view ov)) (req_user request)
        then Inr (permission_denied_response w)
        else WMABaseView_dispatch request w
               (case req_method request of
                  HttpGet \<Rightarrow>
                    Inr (Render (inspect_template (the_model_admin (base_view ov)))
                           [(''view'', CView), (''fields'', COther), (''buttons'', COther),
                            (''instance'', CObj (the_instance ov))], w)
                | HttpPost \<Rightarrow> Inr (MethodNotAllowed, w)
                | HttpOther \<Rightarrow> Inr (MethodNotAllowed, w)))"

text \<open>
  The form views (\<open>WMAFormView\<close> on Django's \<^verbatim>\<open>FormView\<close>): GET renders the form; POST saves a
  valid form, queues the success message and redirects to the index, and for a form that
  is not valid queues the error message and renders the form again. \<open>inst\<close> is the
  instance being edited, \<open>None\<close> when one is created.
\<close>

definition form_view_handler ::
  "framework \<Rightarrow> wma_view \<Rightarrow> string \<Rightarrow> obj option \<Rightarrow> request \<Rightarrow> world \<Rightarrow> outcome" where
  "form_view_handler fw vw template inst request w =
     (let ctx = [(''view'', CView), (''is_multipart'', COther), (''is_tabbed'', COther),
                 (''edit_handler'', CForm)]
      in case req_method request of
           HttpGet \<Rightarrow> Inr (Render template ctx, w)
         | HttpPost \<Rightarrow>
             (case form_save fw (the_db w) (POST request) inst of
                Some (saved, db') \<Rightarrow>
                  Inr (Redirect (index_url (the_model_admin vw)) [],
                       w\<lparr>the_db := db',
                         messages := messages w @
                           [if inst = None then SuccessCreated saved else SuccessUpdated saved]\<rparr>)
              | None \<Rightarrow>
                  Inr (Render template ctx,
                       w\<lparr>messages := messages w @
                           [if inst = None then ErrorNotCreated else ErrorNotSaved]\<rparr>))
         | HttpOther \<Rightarrow> Inr (MethodNotAllowed, w))"

definition CreateView_dispatch :: "framework \<Rightarrow> wma_view \<Rightarrow> request \<Rightarrow> world \<Rightarrow> outcome" where
  "CreateView_dispatch fw vw request w =
     (if \<not> has_add_permission (the_permission_helper vw) (req_user request)
      then Inr (permission_denied_response w)
      else if is_pagemodel (the_model_admin vw)
      then
        (let w' = prime_session_for_redirection vw w;
             parents = get_valid_parent_pages (the_permission_helper vw) (req_user request)
         in case parents of
              [parent] \<Rightarrow>
                Inr (Redirect (PAGES_CREATE_URL_NAME fw)
                       [app_label (opts vw), model_name (opts vw), pk parent], w')
            | _ \<Rightarrow> Inr (Redirect (choose_parent_url (the_model_admin vw)) [], w'))
      else WMABaseView_dispatch request w
             (form_view_handler fw vw (create_template (the_model_admin vw)) None request w))"

definition ChooseParentView_dispatch :: "framework \<Rightarrow> wma_view \<Rightarrow> request \<Rightarrow> world \<Rightarrow> outcome" where
  "ChooseParentView_dispatch fw vw request w =
     (if \<not> has_add_permission (the_permission_helper vw) (req_user request)
      then Inr (permission_denied_response w)
      else WMABaseView_dispatch request w
             (let ctx = [(''view'', CView), (''form'', CForm)];
                  template = choose_parent_template (the_model_admin vw)
              in case req_method request of
                   HttpGet \<Rightarrow> Inr (Render template ctx, w)
                 | HttpPost \<Rightarrow>
                     (case parent_form_valid fw
                             (get_valid_parent_pages (the_permission_helper vw) (req_user request))
                             (POST request) of
                        Some parent \<Rightarrow>
                          Inr (Redirect (PAGES_CREATE_URL_NAME fw)
                                 [app_label (opts vw), model_name (opts vw), quote fw (pk parent)], w)
                      | None \<Rightarrow> Inr (Render template ctx, w))
                 | HttpOther \<Rightarrow> Inr (MethodNotAllowed, w)))"

definition EditView_dispatch :: "framework \<Rightarrow> object_view \<Rightarrow> request \<Rightarrow> world \<Rightarrow> outcome" where
  "EditView_dispatch fw ov request w =
     login_required request w
       (if \<not> can_edit_object (the_permission_helper (base_view ov)) (req_user request) (the_instance ov)
        then Inr (permission_denied_response w)
        else if is_pagemodel (the_model_admin (base_view ov))
        then Inr (Redirect (PAGES_EDIT_URL_NAME fw) [object_id ov],
                  prime_session_for_redirection (base_view ov) w)
        else WMABaseView_dispatch request w
               (form_view_handler fw (base_view ov)
                  (edit_template (the_model_admin (base_view ov))) (Some (the_instance ov)) request w))"

text \<open>The objects \<open>ConfirmDeleteView.post\<close> collects after a \<^verbatim>\<open>ProtectedError\<close>: over the reverse
  relations with \<^verbatim>\<open>on_delete == PROTECT\<close>, the rows related to the instance.\<close>

definition linked_objects :: "model_meta \<Rightarrow> db \<Rightarrow> obj \<Rightarrow> obj list" where
  "linked_objects meta database inst =
     concat (map (\<lambda>rel. case map_of (related_rows database) (accessor_name rel, pk inst) of
                          None \<Rightarrow> []
                        | Some rows \<Rightarrow> rows)
               (filter on_delete_protect (get_all_related_objects meta)))"

text \<open>
  \<open>ConfirmDeleteView.post\<close>. With empty \<^verbatim>\<open>request.POST\<close> the \<^verbatim>\<open>if\<close> is skipped and the final
  \<^verbatim>\<open>return\<close> reads \<^verbatim>\<open>context\<close>, which was never assigned. A failed \<^verbatim>\<open>delete()\<close> leaves the
  database as it was.
\<close>

definition ConfirmDeleteView_post ::
  "framework \<Rightarrow> object_view \<Rightarrow> request \<Rightarrow> world \<Rightarrow> outcome" where
  "ConfirmDeleteView_post fw ov request w =
     (if POST request \<noteq> []
      then
        (case orm_delete fw (the_db w) (the_instance ov) of
           Inr db' \<Rightarrow>
             Inr (Redirect (index_url (the_model_admin (base_view ov))) [],
                  w\<lparr>the_db := db', messages := messages w @ [SuccessDeleted (the_instance ov)]\<rparr>)
         | Inl e \<Rightarrow>
             if e = ProtectedError
             then Inr (Render (confirm_delete_template (the_model_admin (base_view ov)))
                         [(''view'', CView),
                          (''instance'', CObj (the_instance ov)),
                          (''error_protected'', CBool True),
                          (''linked_objects'',
                           CObjs (linked_objects (opts (base_view ov)) (the_db w) (the_instance ov)))],
                       w\<lparr>messages := messages w @ [ErrorNotDeleted (the_instance ov)]\<rparr>)
             else Inl e)
      else Inl UnboundLocalError)"

definition ConfirmDeleteView_get :: "object_view \<Rightarrow> world \<Rightarrow> outcome" where
  "ConfirmDeleteView_get ov w =
     Inr (Render (confirm_delete_template (the_model_admin (base_view ov)))
            [(''view'', CView), (''instance'', CObj (the_instance ov))], w)"

definition ConfirmDeleteView_dispatch ::
  "framework \<Rightarrow> object_view \<Rightarrow> request \<Rightarrow> world \<Rightarrow> outcome" where
  "ConfirmDeleteView_dispatch fw ov request w =
     login_required request w
       (if \<not> can_delete_object (the_permission_helper (base_view ov)) (req_user request) (the_instance ov)
        then Inr (permission_denied_response w)
        else if is_pagemodel (the_model_admin (base_view ov))
        then Inr (Redirect (PAGES_DELETE_URL_NAME fw) [object_id ov],
                  prime_session_for_redirection (base_view ov) w)
        else WMABaseView_dispatch request w
               (case req_method request of
                  HttpGet \<Rightarrow> ConfirmDeleteView_get ov w
                | HttpPost \<Rightarrow> ConfirmDeleteView_post fw ov request w
                | HttpOther \<Rightarrow> Inr (MethodNotAllowed, w)))"

definition UnpublishRedirectView_dispatch ::
  "framework \<Rightarrow> object_view \<Rightarrow> request \<Rightarrow> world \<Rightarrow> outcome" where
  "UnpublishRedirectView_dispatch fw ov request w =
     login_required request w
       (if \<not> can_unpublish_object (the_permission_helper (base_view ov)) (req_user request)
              (the_instance ov)
        then Inr (permission_denied_response w)
        else Inr (Redirect (PAGES_UNPUBLISH_URL_NAME fw) [object_id ov],
                  prime_session_for_redirection (base_view ov) w))"

definition CopyRedirectView_dispatch ::
  "framework \<Rightarrow> object_view \<Rightarrow> request \<Rightarrow> world \<Rightarrow> outcome" where
  "CopyRedirectView_dispatch fw ov request w =
     login_required request w
       (if \<not> can_copy_object (the_permission_helper (base_view ov)) (req_user request) (the_instance ov)
        then Inr (permission_denied_response w)
        else Inr (Redirect (PAGES_COPY_URL_NAME fw) [object_id ov],
                  prime_session_for_redirection (base_view ov) w))"

section \<open>A concrete installation, for the examples\<close>

text \<open>
  Django's \<^verbatim>\<open>django.contrib.admin.utils.quote\<close>, which the views import: each of the
  characters \<^verbatim>\<open>:/_#?;@&=+$,"[]<>%\<close> and the backslash is replaced by an underscore and its
  code in two hexadecimal digits.
\<close>

definition hex_digit :: "nat \<Rightarrow> char" where
  "hex_digit n = ''0123456789ABCDEF'' ! (n mod 16)"

definition quoted_chars :: "char list" where
  "quoted_chars = '':/_#?;@&=+$,[]<>%'' @ [char_of (34 :: nat), char_of (92 :: nat)]"

definition django_quote :: "string \<Rightarrow> string" where
  "django_quote s =
     concat (map (\<lambda>c. if c \<in> set quoted_chars
                       then [CHR ''_'', hex_digit (of_char c div 16), hex_digit (of_char c)]
                       else [c]) s)"

definition ex_opts :: model_meta where
  "ex_opts =
     \<lparr>app_label = ''library'', model_name = ''book'', verbose_name = ''book'',
      pk_name = ''id'', pk_attname = ''id'', ordering = [''title''],
      related_fkey_lookups = [],
      get_field =
        [(''title'', \<lparr>fld_name = ''title'', field_rel = NoRel, is_many_to_one_rel = False\<rparr>),
         (''author'', \<lparr>fld_name = ''author'', field_rel = HasRel (Some ''id''),
                        is_many_to_one_rel = False\<rparr>)],
      get_field_by_name =
        [(''title'', \<lparr>fld_name = ''title'', field_rel = NoRel, is_many_to_one_rel = False\<rparr>),
         (''author'', \<lparr>fld_name = ''author'', field_rel = HasRel (Some ''id''),
                        is_many_to_one_rel = False\<rparr>)],
      get_all_related_objects = [\<lparr>accessor_name = ''loan_set'', on_delete_protect = True\<rparr>]\<rparr>"

definition ex_base_queryset :: queryset where
  "ex_base_queryset =
     \<lparr>qs_source = 0, qs_filters = [], order_by = [], qs_select_related = SRFalse,
      qs_distinct = False\<rparr>"

definition ex_admin :: model_admin where
  "ex_admin =
     \<lparr>is_pagemodel = False,
      list_display = [DisplayName ''title'', DisplayName ''author''],
      list_filter = [],
      search_fields = [''title'', ''^author''],
      list_per_page = 2,
      list_select_related = SRFalse,
      admin_ordering = [],
      admin_attrs = [],
      base_queryset = ex_base_queryset,
      index_url = ''/admin/library/book/'',
      choose_parent_url = ''/admin/library/book/choose_parent/'',
      index_template = ''index.html'',
      inspect_template = ''inspect.html'',
      create_template = ''create.html'',
      edit_template = ''edit.html'',
      confirm_delete_template = ''confirm_delete.html'',
      choose_parent_template = ''choose_parent.html''\<rparr>"

text \<open>The user \<^verbatim>\<open>editor\<close> may do everything, nobody else anything; \<^verbatim>\<open>editor\<close> has one valid
  parent page.\<close>

definition ex_parent :: obj where
  "ex_parent = \<lparr>pk = ''7'', label = ''Books''\<rparr>"

definition ex_helper :: permission_helper where
  "ex_helper =
     \<lparr>allow_list_view = (\<lambda>u. username u = ''editor''),
      has_list_permission = (\<lambda>u. username u = ''editor''),
      has_add_permission = (\<lambda>u. username u = ''editor''),
      can_edit_object = (\<lambda>u x. username u = ''editor''),
      can_delete_object = (\<lambda>u x. username u = ''editor''),
      can_unpublish_object = (\<lambda>u x. username u = ''editor''),
      can_copy_object = (\<lambda>u x. username u = ''editor''),
      get_valid_parent_pages = (\<lambda>u. if username u = ''editor'' then [ex_parent] else [])\<rparr>"

definition ex_view :: wma_view where
  "ex_view =
     \<lparr>the_model_admin = ex_admin, opts = ex_opts, model_attrs = [],
      the_permission_helper = ex_helper\<rparr>"

definition ex_page_view :: wma_view where
  "ex_page_view = ex_view\<lparr>the_model_admin := ex_admin\<lparr>is_pagemodel := True\<rparr>\<rparr>"

text \<open>
  A framework for the examples: a lookup path needs no \<^verbatim>\<open>distinct()\<close> and must start with a
  field of the model; no list filters; a queryset evaluates to all rows; a row with related
  rows cannot be deleted; forms are never valid.
\<close>

definition ex_delete :: "db \<Rightarrow> obj \<Rightarrow> error + db" where
  "ex_delete database x =
     (if list_ex (\<lambda>(key, rows). snd key = pk x \<and> rows \<noteq> []) (related_rows database)
      then Inl ProtectedError
      else Inr (database\<lparr>objects := filter (\<lambda>y. pk y \<noteq> pk x) (objects database)\<rparr>))"

definition ex_fw :: framework where
  "ex_fw =
     \<lparr>query_terms = QUERY_TERMS,
      lookup_needs_distinct =
        (\<lambda>path. if hd (py_split LOOKUP_SEP path) \<in> set [''title'', ''author'']
                 then Inr False else Inl FieldDoesNotExist),
      quote = django_quote,
      new_filter_spec = (\<lambda>item lookup_params. Inr (None, lookup_params)),
      spec_queryset = (\<lambda>sp qs. None),
      prepare_lookup_value = (\<lambda>k v. VStr v),
      filter_kwargs_error = (\<lambda>kwargs. None),
      run_query = (\<lambda>database qs. objects database),
      orm_delete = ex_delete,
      form_save = (\<lambda>database form_data inst. None),
      parent_form_valid = (\<lambda>parents form_data. None),
      wagtail_version = ''1.3''\<rparr>"

definition ex_book :: obj where
  "ex_book = \<lparr>pk = ''1'', label = ''Dune''\<rparr>"

definition ex_db :: db where
  "ex_db =
     \<lparr>objects = [ex_book, \<lparr>pk = ''2'', label = ''Emma''\<rparr>, \<lparr>pk = ''3'', label = ''Ulysses''\<rparr>],
      related_rows = [((''loan_set'', ''2''), [\<lparr>pk = ''90'', label = ''loan''\<rparr>])]\<rparr>"

definition ex_world :: world where
  "ex_world = \<lparr>the_db = ex_db, messages = [], return_to_index_url = None\<rparr>"

definition ex_editor :: user where
  "ex_editor = \<lparr>username = ''editor'', is_authenticated = True\<rparr>"

definition ex_guest :: user where
  "ex_guest = \<lparr>username = ''guest'', is_authenticated = True\<rparr>"

definition ex_anonymous :: user where
  "ex_anonymous = \<lparr>username = [], is_authenticated = False\<rparr>"

definition ex_request ::
  "http_method \<Rightarrow> user \<Rightarrow> (string \<times> string) list \<Rightarrow> (string \<times> string) list \<Rightarrow> request" where
  "ex_request m u query_pairs form_pairs =
     \<lparr>req_method = m, req_user = u, GET = query_pairs, POST = form_pairs\<rparr>"

definition ex_object_view :: "wma_view \<Rightarrow> obj \<Rightarrow> object_view" where
  "ex_object_view vw x =
     \<lparr>base_view = vw, object_id = pk x, pk_safe = pk x, the_instance = x\<rparr>"

section \<open>Predicates used in the statements\<close>

text \<open>No entry of \<^verbatim>\<open>list_display\<close> makes \<open>get_ordering_field\<close> raise: every name in it is a
  field, an attribute of the model admin or an attribute of the model.\<close>

definition list_display_resolves :: "wma_view \<Rightarrow> bool" where
  "list_display_resolves vw =
     list_all (\<lambda>item. \<not> isl (get_ordering_field vw item)) (list_display (the_model_admin vw))"

text \<open>A lookup that is a single part once a trailing query term is dropped.\<close>

definition direct_lookup :: "string list \<Rightarrow> string \<Rightarrow> bool" where
  "direct_lookup qt lookup = (length (drop_query_term qt (py_split LOOKUP_SEP lookup)) = 1)"

text \<open>Two query strings that differ at most in their \<^verbatim>\<open>ot\<close> pairs.\<close>

definition same_but_ot :: "(string \<times> string) list \<Rightarrow> (string \<times> string) list \<Rightarrow> bool" where
  "same_but_ot g1 g2 =
     (filter (\<lambda>kv. fst kv \<noteq> ORDER_TYPE_VAR) g1 = filter (\<lambda>kv. fst kv \<noteq> ORDER_TYPE_VAR) g2)"

text \<open>
  The dictionary \<open>get_query_string\<close> builds from \<^verbatim>\<open>self.params\<close> before it sorts and encodes
  it: the keys that start with an entry of \<^verbatim>\<open>remove\<close> are deleted, then every new parameter
  is set, or deleted when its value is \<^verbatim>\<open>None\<close>.
\<close>

definition query_string_params ::
  "string pydict \<Rightarrow> string option pydict \<Rightarrow> string list \<Rightarrow> string pydict" where
  "query_string_params self_params new_params remove =
     foldl (\<lambda>p kv. case snd kv of
                      None \<Rightarrow> AList.delete (fst kv) p
                    | Some x \<Rightarrow> AList.update (fst kv) x p)
       (foldl (\<lambda>p r. filter (\<lambda>kv. \<not> startswith (fst kv) r) p) self_params remove)
       new_params"

text \<open>
  The page a request for page \<open>page_num\<close> (counted from zero) is to see, of \<open>n\<close> rows in pages
  of \<open>per_page\<close>: page \<open>page_num + 1\<close> if there is one, else the first page; and the rows
  of a page.
\<close>

definition last_page_number :: "nat \<Rightarrow> nat \<Rightarrow> int" where
  "last_page_number per_page n = int ((max 1 n + per_page - 1) div per_page)"

definition shown_page_number :: "nat \<Rightarrow> nat \<Rightarrow> int \<Rightarrow> int" where
  "shown_page_number per_page n page_num =
     (if 1 \<le> page_num + 1 \<and> page_num + 1 \<le> last_page_number per_page n
      then page_num + 1 else 1)"

definition page_rows :: "nat \<Rightarrow> obj list \<Rightarrow> int \<Rightarrow> obj list" where
  "page_rows per_page rows n = take per_page (drop (nat (n - 1) * per_page) rows)"

section \<open>Lookups that are always allowed\<close>

lemma lookup_allowed_one_part:
  assumes "direct_lookup qt lookup"
  shows "lookup_allowed qt meta lf lookup v"
proof -
  from assms obtain p where p: "drop_query_term qt (py_split LOOKUP_SEP lookup) = [p]"
    unfolding direct_lookup_def
    by (cases "drop_query_term qt (py_split LOOKUP_SEP lookup)") auto
  show ?thesis
    unfolding lookup_allowed_def Let_def p by simp
qed

lemma check_lookups_allowed_direct:
  assumes "list_all (\<lambda>kv. direct_lookup (query_terms fw) (fst kv)) ps"
  shows "check_lookups_allowed fw vw ps = Inr ()"
  using assms
proof (induction ps)
  case Nil
  then show ?case by simp
next
  case (Cons kv ps)
  obtain k v where kv: "kv = (k, v)" by (cases kv)
  from Cons.prems kv have "direct_lookup (query_terms fw) k" by simp
  then have "lookup_allowed (query_terms fw) (opts vw) (list_filter (the_model_admin vw)) k v"
    by (rule lookup_allowed_one_part)
  moreover from Cons have "check_lookups_allowed fw vw ps = Inr ()" by simp
  ultimately show ?case using kv by simp
qed

text \<open>
  C10. A lookup that is a single part after a trailing query term has been dropped is
  allowed by \<open>lookup_allowed\<close>, whatever the value, the model and \<^verbatim>\<open>list_filter\<close> are; so the
  first loop of \<open>get_filters\<close> does not raise \<^verbatim>\<open>DisallowedModelAdminLookup\<close> on parameters
  that are all of that kind.
\<close>

theorem direct_lookup_always_allowed:
  "(direct_lookup qt lookup \<longrightarrow> lookup_allowed qt meta lf lookup v) \<and>
   (list_all (\<lambda>kv. direct_lookup (query_terms fw) (fst kv)) ps \<longrightarrow>
      check_lookups_allowed fw vw ps = Inr ())"
  using lookup_allowed_one_part check_lookups_allowed_direct by blast

theorem direct_lookup_always_allowed_witness:
  "direct_lookup QUERY_TERMS ''title__icontains'' \<and>
   lookup_allowed QUERY_TERMS ex_opts [] ''title__icontains'' ''du'' \<and>
   check_lookups_allowed ex_fw ex_view [(''title__icontains'', ''du''), (''author'', ''3'')] = Inr ()"
proof -
  have a: "direct_lookup QUERY_TERMS ''title__icontains''"
    by code_simp
  have b: "list_all (\<lambda>kv. direct_lookup (query_terms ex_fw) (fst kv))
             [(''title__icontains'', ''du''), (''author'', ''3'')]"
    by code_simp
  from a b
    direct_lookup_always_allowed [where qt = QUERY_TERMS and lookup = "''title__icontains''"
      and meta = ex_opts and lf = "[]" and v = "''du''" and fw = ex_fw and vw = ex_view
      and ps = "[(''title__icontains'', ''du''), (''author'', ''3'')]"]
  show ?thesis by blast
qed

section \<open>The ordering of the index\<close>

lemma get_ordering_result:
  assumes "get_ordering vw params qs = Inr ord"
  shows "\<exists>c. combined_ordering vw params qs = Inr c \<and>
             ord = (if set c \<inter> set (pk_orderings vw) = {} then c @ [''-pk''] else c)"
  using assms by (auto simp: get_ordering_def split: sum.splits if_splits)

lemma minus_pk_in_pk_orderings: "''-pk'' \<in> set (pk_orderings vw)"
  by (simp add: pk_orderings_def)

lemma get_ordering_has_pk:
  assumes "get_ordering vw params qs = Inr ord"
  shows "set ord \<inter> set (pk_orderings vw) \<noteq> {}"
proof -
  from get_ordering_result [OF assms] obtain c where
    c: "ord = (if set c \<inter> set (pk_orderings vw) = {} then c @ [''-pk''] else c)"
    by blast
  show ?thesis
  proof (cases "set c \<inter> set (pk_orderings vw) = {}")
    case True
    then have "''-pk'' \<in> set ord" using c by simp
    then show ?thesis using minus_pk_in_pk_orderings by blast
  next
    case False
    then show ?thesis using c by simp
  qed
qed

lemma py_index_in_set: "py_index xs i = Some x \<Longrightarrow> x \<in> set xs"
  by (auto simp: py_index_def Let_def split: if_splits)

lemma order_param_fields_total:
  assumes "list_display_resolves vw"
  shows "\<exists>fs. order_param_fields vw p = Inr fs"
proof -
  obtain a pfx idx where r: "rpartition CHR ''-'' p = (a, pfx, idx)"
    by (cases "rpartition CHR ''-'' p") auto
  show ?thesis
  proof (cases "py_int idx")
    case None
    then show ?thesis using r by (simp add: order_param_fields_def)
  next
    case i: (Some i)
    show ?thesis
    proof (cases "py_index (list_display (the_model_admin vw)) i")
      case None
      then show ?thesis using r i by (simp add: order_param_fields_def)
    next
      case (Some item)
      then have "item \<in> set (list_display (the_model_admin vw))"
        by (rule py_index_in_set)
      with assms have "\<not> isl (get_ordering_field vw item)"
        by (simp add: list_display_resolves_def list_all_iff)
      then obtain r' where "get_ordering_field vw item = Inr r'"
        by (cases "get_ordering_field vw item") auto
      then show ?thesis using r i Some
        by (cases r') (auto simp: order_param_fields_def)
    qed
  qed
qed

lemma order_params_loop_total:
  assumes "list_display_resolves vw"
  shows "\<exists>fs. order_params_loop vw ps = Inr fs"
proof (induction ps)
  case Nil
  then show ?case by simp
next
  case (Cons p ps)
  from order_param_fields_total [OF assms, of p]
  obtain fs where "order_param_fields vw p = Inr fs" by blast
  moreover from Cons obtain rest where "order_params_loop vw ps = Inr rest" by blast
  ultimately show ?case by simp
qed

lemma get_ordering_total:
  assumes "list_display_resolves vw"
  shows "\<exists>ord. get_ordering vw params qs = Inr ord"
proof -
  have "\<exists>c. combined_ordering vw params qs = Inr c"
  proof (cases "map_of params ORDER_VAR")
    case None
    then show ?thesis by (simp add: combined_ordering_def)
  next
    case (Some o_param)
    from order_params_loop_total [OF assms, of "py_split ''.'' o_param"]
    obtain fs where "order_params_loop vw (py_split ''.'' o_param) = Inr fs" by blast
    then show ?thesis using Some by (simp add: combined_ordering_def)
  qed
  then show ?thesis by (auto simp: get_ordering_def)
qed

text \<open>
  C9. Whatever the parameters and the queryset are, a list that \<open>get_ordering\<close> returns
  contains \<^verbatim>\<open>pk\<close>, \<^verbatim>\<open>-pk\<close>, the primary key's name or that name with \<^verbatim>\<open>-\<close> in front: it is the
  combined ordering (the query string's or the default one, then the queryset's own), with
  \<^verbatim>\<open>-pk\<close> appended as the last field exactly when the combined ordering has none of the four.
  And \<open>get_ordering\<close> does return a list whenever every entry of \<^verbatim>\<open>list_display\<close> resolves.
\<close>

theorem get_ordering_ends_with_primary_key:
  "(\<forall>ord. get_ordering vw params qs = Inr ord \<longrightarrow>
      set ord \<inter> set (pk_orderings vw) \<noteq> {} \<and>
      (\<exists>c. combined_ordering vw params qs = Inr c \<and>
           ord = (if set c \<inter> set (pk_orderings vw) = {} then c @ [''-pk''] else c))) \<and>
   (list_display_resolves vw \<longrightarrow> (\<exists>ord. get_ordering vw params qs = Inr ord))"
  using get_ordering_has_pk get_ordering_result get_ordering_total by blast

theorem get_ordering_ends_with_primary_key_witness:
  "list_display_resolves ex_view \<and>
   get_ordering ex_view [(''o'', ''-0.1'')] ex_base_queryset = Inr [''-title'', ''author'', ''-pk''] \<and>
   combined_ordering ex_view [(''o'', ''-0.1'')] ex_base_queryset = Inr [''-title'', ''author''] \<and>
   set [''-title'', ''author'', ''-pk''] \<inter> set (pk_orderings ex_view) \<noteq> {}"
proof -
  have r: "list_display_resolves ex_view"
    by code_simp
  have g: "get_ordering ex_view [(''o'', ''-0.1'')] ex_base_queryset
             = Inr [''-title'', ''author'', ''-pk'']"
    by code_simp
  have c: "combined_ordering ex_view [(''o'', ''-0.1'')] ex_base_queryset
             = Inr [''-title'', ''author'']"
    by code_simp
  from g get_ordering_ends_with_primary_key [of ex_view "[(''o'', ''-0.1'')]" ex_base_queryset]
  have "set [''-title'', ''author'', ''-pk''] \<inter> set (pk_orderings ex_view) \<noteq> {}"
    by blast
  with r g c show ?thesis by blast
qed

section \<open>The parameter \<^verbatim>\<open>ot\<close>\<close>

lemma delete_querydict_items_from:
  "AList.delete k (foldl (\<lambda>acc (k', v). AList.update k' v acc) acc g) =
   foldl (\<lambda>acc (k', v). AList.update k' v acc) (AList.delete k acc)
     (filter (\<lambda>kv. fst kv \<noteq> k) g)"
proof (induction g arbitrary: acc)
  case Nil
  then show ?case by simp
next
  case (Cons kv g)
  obtain k' v where kv: "kv = (k', v)" by (cases kv)
  show ?case
  proof (cases "k' = k")
    case True
    then show ?thesis using Cons [of "AList.update k' v acc"] kv
      by (simp add: delete_update_same)
  next
    case False
    then show ?thesis using Cons [of "AList.update k' v acc"] kv
      by (simp add: delete_update)
  qed
qed

lemma delete_querydict_items:
  "AList.delete k (querydict_items g) = querydict_items (filter (\<lambda>kv. fst kv \<noteq> k) g)"
  unfolding querydict_items_def
  using delete_querydict_items_from [of k "[]" g] by simp

lemma delete_ot_index_params:
  "AList.delete ORDER_TYPE_VAR (index_params r) =
   AList.delete ERROR_FLAG (AList.delete PAGE_VAR
     (querydict_items (filter (\<lambda>kv. fst kv \<noteq> ORDER_TYPE_VAR) (GET r))))"
  unfolding index_params_def
  by (metis delete_twist delete_querydict_items)

lemma get_filters_params_self:
  "get_filters_params ps None =
   AList.delete SEARCH_VAR (AList.delete ORDER_VAR (AList.delete ORDER_TYPE_VAR ps))"
  unfolding get_filters_params_def IGNORED_PARAMS_def
  by (simp add: delete_twist)

lemma map_of_filter_other_key:
  "k \<noteq> k' \<Longrightarrow> map_of (filter (\<lambda>kv. fst kv \<noteq> k') xs) k = map_of xs k"
  by (induction xs) auto

lemma querydict_get_filter_other_key:
  "k \<noteq> k' \<Longrightarrow> querydict_get (filter (\<lambda>kv. fst kv \<noteq> k') g) k = querydict_get g k"
  unfolding querydict_get_def
  by (simp add: rev_filter map_of_filter_other_key)

lemma get_queryset_params_cong:
  assumes "get_filters_params ps1 None = get_filters_params ps2 None"
    and "map_of ps1 ORDER_VAR = map_of ps2 ORDER_VAR"
  shows "get_queryset fw vw ps1 query = get_queryset fw vw ps2 query"
proof -
  have f: "get_filters fw vw ps1 = get_filters fw vw ps2"
    using assms(1) by (simp add: get_filters_def)
  have g: "\<And>qs. get_ordering vw ps1 qs = get_ordering vw ps2 qs"
    using assms(2) by (simp add: get_ordering_def combined_ordering_def)
  show ?thesis
    unfolding get_queryset_def f g ..
qed

lemma get_queryset_same_but_ot:
  assumes "same_but_ot (GET r1) (GET r2)"
  shows "get_queryset fw vw (index_params r1) (index_query r1) =
         get_queryset fw vw (index_params r2) (index_query r2)"
proof -
  from assms have e: "filter (\<lambda>kv. fst kv \<noteq> ORDER_TYPE_VAR) (GET r1) =
                      filter (\<lambda>kv. fst kv \<noteq> ORDER_TYPE_VAR) (GET r2)"
    by (simp add: same_but_ot_def)
  have d: "AList.delete ORDER_TYPE_VAR (index_params r1) =
           AList.delete ORDER_TYPE_VAR (index_params r2)"
    by (simp add: delete_ot_index_params e)
  have a: "get_filters_params (index_params r1) None = get_filters_params (index_params r2) None"
    by (simp add: get_filters_params_self d)
  have "map_of (AList.delete ORDER_TYPE_VAR (index_params r1)) ORDER_VAR =
        map_of (AList.delete ORDER_TYPE_VAR (index_params r2)) ORDER_VAR"
    by (simp add: d)
  then have b: "map_of (index_params r1) ORDER_VAR = map_of (index_params r2) ORDER_VAR"
    by (simp add: delete_conv' ORDER_VAR_def ORDER_TYPE_VAR_def)
  have "querydict_get (filter (\<lambda>kv. fst kv \<noteq> ORDER_TYPE_VAR) (GET r1)) SEARCH_VAR =
        querydict_get (filter (\<lambda>kv. fst kv \<noteq> ORDER_TYPE_VAR) (GET r2)) SEARCH_VAR"
    by (simp add: e)
  then have "querydict_get (GET r1) SEARCH_VAR = querydict_get (GET r2) SEARCH_VAR"
    by (simp add: querydict_get_filter_other_key SEARCH_VAR_def ORDER_TYPE_VAR_def)
  then have q: "index_query r1 = index_query r2"
    by (simp add: index_query_def)
  show ?thesis
    using get_queryset_params_cong [OF a b] q by simp
qed

lemma rpartition_absent: "c \<notin> set s \<Longrightarrow> rpartition c s = ([], [], s)"
  by (simp add: rpartition_def)

lemma rpartition_front: "c \<notin> set s \<Longrightarrow> rpartition c (c # s) = ([], [c], s)"
  by (simp add: rpartition_def takeWhile_append dropWhile_append)

lemma order_param_direction:
  assumes "CHR ''-'' \<notin> set idx" and "order_param_fields vw idx = Inr [f]"
  shows "order_param_fields vw (CHR ''-'' # idx) =
         Inr [if startswith f ''-'' then tl f else CHR ''-'' # f]"
  using assms
  by (auto simp: order_param_fields_def rpartition_absent rpartition_front
           split: option.splits sum.splits if_splits)

text \<open>
  C4, as the code has it. The index view reads no direction from \<^verbatim>\<open>ot\<close>: two requests whose
  query strings differ at most in their \<^verbatim>\<open>ot\<close> pairs get the same queryset, with the same
  ordering (or the same exception). The direction of a column is the \<^verbatim>\<open>-\<close> in front of its
  index in \<^verbatim>\<open>o\<close>: where the index alone gives the field \<open>f\<close>, the index with \<^verbatim>\<open>-\<close> in front
  gives \<open>f\<close> reversed.
\<close>

theorem ordering_direction_is_in_o_not_ot:
  "(same_but_ot (GET r1) (GET r2) \<longrightarrow>
      get_queryset fw vw (index_params r1) (index_query r1) =
      get_queryset fw vw (index_params r2) (index_query r2)) \<and>
   (CHR ''-'' \<notin> set idx \<and> order_param_fields vw idx = Inr [f] \<longrightarrow>
      order_param_fields vw (CHR ''-'' # idx) =
      Inr [if startswith f ''-'' then tl f else CHR ''-'' # f])"
  using get_queryset_same_but_ot order_param_direction by blast

theorem ordering_direction_is_in_o_not_ot_witness:
  "same_but_ot [(''o'', ''0''), (''ot'', ''asc'')] [(''o'', ''0''), (''ot'', ''desc'')] \<and>
   get_queryset ex_fw ex_view
     (index_params (ex_request HttpGet ex_editor [(''o'', ''0''), (''ot'', ''asc'')] [])) [] =
   get_queryset ex_fw ex_view
     (index_params (ex_request HttpGet ex_editor [(''o'', ''0''), (''ot'', ''desc'')] [])) [] \<and>
   order_param_fields ex_view ''0'' = Inr [''title''] \<and>
   order_param_fields ex_view ''-0'' = Inr [''-title'']"
proof -
  let ?r1 = "ex_request HttpGet ex_editor [(''o'', ''0''), (''ot'', ''asc'')] []"
  let ?r2 = "ex_request HttpGet ex_editor [(''o'', ''0''), (''ot'', ''desc'')] []"
  have s: "same_but_ot [(''o'', ''0''), (''ot'', ''asc'')] [(''o'', ''0''), (''ot'', ''desc'')]"
    by code_simp
  have g: "GET ?r1 = [(''o'', ''0''), (''ot'', ''asc'')]" "GET ?r2 = [(''o'', ''0''), (''ot'', ''desc'')]"
    by (simp_all add: ex_request_def)
  have q: "index_query ?r1 = []" "index_query ?r2 = []"
    by code_simp+
  have n: "CHR ''-'' \<notin> set ''0''"
    by simp
  have f: "order_param_fields ex_view ''0'' = Inr [''title'']"
    by code_simp
  have t: "\<not> startswith ''title'' ''-''"
    by code_simp
  from ordering_direction_is_in_o_not_ot
         [where ?r1.0 = ?r1 and ?r2.0 = ?r2 and fw = ex_fw and vw = ex_view
            and idx = "''0''" and f = "''title''"]
    s g q n f t
  show ?thesis by simp
qed

text \<open>
  C4, as the claim states it, fails: no two requests that differ only in \<^verbatim>\<open>ot\<close> get
  different querysets, so none get different orderings.
\<close>

theorem no_requests_differ_by_ot:
  "\<not> (\<exists>fw vw r1 r2. same_but_ot (GET r1) (GET r2) \<and>
        get_queryset fw vw (index_params r1) (index_query r1) \<noteq>
        get_queryset fw vw (index_params r2) (index_query r2))"
  using get_queryset_same_but_ot by blast

section \<open>Searching the index\<close>















section \<open>The views of a page model redirect\<close>

lemma CreateView_dispatch_pagemodel:
  assumes "is_pagemodel (the_model_admin vw)"
    and "has_add_permission (the_permission_helper vw) (req_user request)"
  shows "CreateView_dispatch fw vw request w =
         Inr (case get_valid_parent_pages (the_permission_helper vw) (req_user request) of
                [] \<Rightarrow> Redirect (choose_parent_url (the_model_admin vw)) []
              | [parent] \<Rightarrow>
                  Redirect (PAGES_CREATE_URL_NAME fw)
                    [app_label (opts vw), model_name (opts vw), pk parent]
              | parent # p # ps \<Rightarrow> Redirect (choose_parent_url (the_model_admin vw)) [],
              prime_session_for_redirection vw w)"
  using assms by (simp add: CreateView_dispatch_def Let_def split: list.splits)

lemma CreateView_dispatch_one_parent:
  assumes "is_pagemodel (the_model_admin vw)"
    and "has_add_permission (the_permission_helper vw) (req_user request)"
    and "get_valid_parent_pages (the_permission_helper vw) (req_user request) = [parent]"
  shows "CreateView_dispatch fw vw request w =
         Inr (Redirect (PAGES_CREATE_URL_NAME fw)
                [app_label (opts vw), model_name (opts vw), pk parent],
              prime_session_for_redirection vw w)"
  using CreateView_dispatch_pagemodel [OF assms(1,2)] assms(3) by simp

lemma CreateView_dispatch_choose_parent:
  assumes "is_pagemodel (the_model_admin vw)"
    and "has_add_permission (the_permission_helper vw) (req_user request)"
    and "length (get_valid_parent_pages (the_permission_helper vw) (req_user request)) \<noteq> 1"
  shows "CreateView_dispatch fw vw request w =
         Inr (Redirect (choose_parent_url (the_model_admin vw)) [],
              prime_session_for_redirection vw w)"
  using CreateView_dispatch_pagemodel [OF assms(1,2)] assms(3)
  by (cases "get_valid_parent_pages (the_permission_helper vw) (req_user request)")
     (auto split: list.splits)

lemma EditView_dispatch_pagemodel:
  assumes "is_pagemodel (the_model_admin (base_view ov))"
    and "is_authenticated (req_user request)"
    and "can_edit_object (the_permission_helper (base_view ov)) (req_user request) (the_instance ov)"
  shows "EditView_dispatch fw ov request w =
         Inr (Redirect (PAGES_EDIT_URL_NAME fw) [object_id ov],
              prime_session_for_redirection (base_view ov) w)"
  using assms by (simp add: EditView_dispatch_def login_required_def)

lemma ConfirmDeleteView_dispatch_pagemodel:
  assumes "is_pagemodel (the_model_admin (base_view ov))"
    and "is_authenticated (req_user request)"
    and "can_delete_object (the_permission_helper (base_view ov)) (req_user request) (the_instance ov)"
  shows "ConfirmDeleteView_dispatch fw ov request w =
         Inr (Redirect (PAGES_DELETE_URL_NAME fw) [object_id ov],
              prime_session_for_redirection (base_view ov) w)"
  using assms by (simp add: ConfirmDeleteView_dispatch_def login_required_def)

lemma UnpublishRedirectView_dispatch_permitted:
  assumes "is_authenticated (req_user request)"
    and "can_unpublish_object (the_permission_helper (base_view ov)) (req_user request)
           (the_instance ov)"
  shows "UnpublishRedirectView_dispatch fw ov request w =
         Inr (Redirect (PAGES_UNPUBLISH_URL_NAME fw) [object_id ov],
              prime_session_for_redirection (base_view ov) w)"
  using assms by (simp add: UnpublishRedirectView_dispatch_def login_required_def)

lemma CopyRedirectView_dispatch_permitted:
  assumes "is_authenticated (req_user request)"
    and "can_copy_object (the_permission_helper (base_view ov)) (req_user request) (the_instance ov)"
  shows "CopyRedirectView_dispatch fw ov request w =
         Inr (Redirect (PAGES_COPY_URL_NAME fw) [object_id ov],
              prime_session_for_redirection (base_view ov) w)"
  using assms by (simp add: CopyRedirectView_dispatch_def login_required_def)

text \<open>
  C1. For a page model: a request to \<open>CreateView\<close> by a user with the add permission is
  redirected to the framework's page-create view, with the application label, the model
  name and the primary key of the parent, when the user has exactly one valid parent page,
  and to the choose-parent view otherwise. A request by a logged-in user whom the permission
  helper allows to \<open>EditView\<close>, \<open>ConfirmDeleteView\<close>, \<open>UnpublishRedirectView\<close> and
  \<open>CopyRedirectView\<close> is redirected to the framework's page edit, delete, unpublish and copy
  view for the object id. Each of these redirects first stores the index URL in the session.
\<close>

theorem page_model_views_redirect:
  assumes "is_pagemodel (the_model_admin vw)" and "base_view ov = vw"
  shows
    "(has_add_permission (the_permission_helper vw) (req_user request) \<longrightarrow>
        (\<forall>parent. get_valid_parent_pages (the_permission_helper vw) (req_user request) = [parent]
           \<longrightarrow> CreateView_dispatch fw vw request w =
               Inr (Redirect (PAGES_CREATE_URL_NAME fw)
                      [app_label (opts vw), model_name (opts vw), pk parent],
                    prime_session_for_redirection vw w)) \<and>
        (length (get_valid_parent_pages (the_permission_helper vw) (req_user request)) \<noteq> 1
           \<longrightarrow> CreateView_dispatch fw vw request w =
               Inr (Redirect (choose_parent_url (the_model_admin vw)) [],
                    prime_session_for_redirection vw w))) \<and>
     (is_authenticated (req_user request) \<longrightarrow>
        (can_edit_object (the_permission_helper vw) (req_user request) (the_instance ov) \<longrightarrow>
           EditView_dispatch fw ov request w =
           Inr (Redirect (PAGES_EDIT_URL_NAME fw) [object_id ov],
                prime_session_for_redirection vw w)) \<and>
        (can_delete_object (the_permission_helper vw) (req_user request) (the_instance ov) \<longrightarrow>
           ConfirmDeleteView_dispatch fw ov request w =
           Inr (Redirect (PAGES_DELETE_URL_NAME fw) [object_id ov],
                prime_session_for_redirection vw w)) \<and>
        (can_unpublish_object (the_permission_helper vw) (req_user request) (the_instance ov) \<longrightarrow>
           UnpublishRedirectView_dispatch fw ov request w =
           Inr (Redirect (PAGES_UNPUBLISH_URL_NAME fw) [object_id ov],
                prime_session_for_redirection vw w)) \<and>
        (can_copy_object (the_permission_helper vw) (req_user request) (the_instance ov) \<longrightarrow>
           CopyRedirectView_dispatch fw ov request w =
           Inr (Redirect (PAGES_COPY_URL_NAME fw) [object_id ov],
                prime_session_for_redirection vw w)))"
proof (intro conjI impI allI)
  fix parent
  assume "has_add_permission (the_permission_helper vw) (req_user request)"
    and "get_valid_parent_pages (the_permission_helper vw) (req_user request) = [parent]"
  then show "CreateView_dispatch fw vw request w =
             Inr (Redirect (PAGES_CREATE_URL_NAME fw)
                    [app_label (opts vw), model_name (opts vw), pk parent],
                  prime_session_for_redirection vw w)"
    using assms(1) by (simp add: CreateView_dispatch_one_parent)
next
  assume "has_add_permission (the_permission_helper vw) (req_user request)"
    and "length (get_valid_parent_pages (the_permission_helper vw) (req_user request)) \<noteq> 1"
  then show "CreateView_dispatch fw vw request w =
             Inr (Redirect (choose_parent_url (the_model_admin vw)) [],
                  prime_session_for_redirection vw w)"
    using assms(1) by (simp add: CreateView_dispatch_choose_parent)
next
  assume "is_authenticated (req_user request)"
    and "can_edit_object (the_permission_helper vw) (req_user request) (the_instance ov)"
  then show "EditView_dispatch fw ov request w =
             Inr (Redirect (PAGES_EDIT_URL_NAME fw) [object_id ov],
                  prime_session_for_redirection vw w)"
    using assms EditView_dispatch_pagemodel [of ov request fw w] by simp
next
  assume "is_authenticated (req_user request)"
    and "can_delete_object (the_permission_helper vw) (req_user request) (the_instance ov)"
  then show "ConfirmDeleteView_dispatch fw ov request w =
             Inr (Redirect (PAGES_DELETE_URL_NAME fw) [object_id ov],
                  prime_session_for_redirection vw w)"
    using assms ConfirmDeleteView_dispatch_pagemodel [of ov request fw w] by simp
next
  assume "is_authenticated (req_user request)"
    and "can_unpublish_object (the_permission_helper vw) (req_user request) (the_instance ov)"
  then show "UnpublishRedirectView_dispatch fw ov request w =
             Inr (Redirect (PAGES_UNPUBLISH_URL_NAME fw) [object_id ov],
                  prime_session_for_redirection vw w)"
    using assms UnpublishRedirectView_dispatch_permitted [of request ov fw w] by simp
next
  assume "is_authenticated (req_user request)"
    and "can_copy_object (the_permission_helper vw) (req_user request) (the_instance ov)"
  then show "CopyRedirectView_dispatch fw ov request w =
             Inr (Redirect (PAGES_COPY_URL_NAME fw) [object_id ov],
                  prime_session_for_redirection vw w)"
    using assms CopyRedirectView_dispatch_permitted [of request ov fw w] by simp
qed

theorem page_model_views_redirect_witness:
  "is_pagemodel (the_model_admin ex_page_view) \<and>
   CreateView_dispatch ex_fw ex_page_view (ex_request HttpGet ex_editor [] []) ex_world =
     Inr (Redirect ''wagtailadmin_pages:add'' [''library'', ''book'', ''7''],
          ex_world\<lparr>return_to_index_url := Some ''/admin/library/book/''\<rparr>) \<and>
   EditView_dispatch ex_fw (ex_object_view ex_page_view ex_book)
       (ex_request HttpGet ex_editor [] []) ex_world =
     Inr (Redirect ''wagtailadmin_pages:edit'' [''1''],
          ex_world\<lparr>return_to_index_url := Some ''/admin/library/book/''\<rparr>) \<and>
   ConfirmDeleteView_dispatch ex_fw (ex_object_view ex_page_view ex_book)
       (ex_request HttpGet ex_editor [] []) ex_world =
     Inr (Redirect ''wagtailadmin_pages:delete'' [''1''],
          ex_world\<lparr>return_to_index_url := Some ''/admin/library/book/''\<rparr>) \<and>
   UnpublishRedirectView_dispatch ex_fw (ex_object_view ex_page_view ex_book)
       (ex_request HttpGet ex_editor [] []) ex_world =
     Inr (Redirect ''wagtailadmin_pages:unpublish'' [''1''],
          ex_world\<lparr>return_to_index_url := Some ''/admin/library/book/''\<rparr>) \<and>
   CopyRedirectView_dispatch ex_fw (ex_object_view ex_page_view ex_book)
       (ex_request HttpGet ex_editor [] []) ex_world =
     Inr (Redirect ''wagtailadmin_pages:copy'' [''1''],
          ex_world\<lparr>return_to_index_url := Some ''/admin/library/book/''\<rparr>)"
proof -
  let ?rq = "ex_request HttpGet ex_editor [] []"
  let ?ov = "ex_object_view ex_page_view ex_book"
  have pm: "is_pagemodel (the_model_admin ex_page_view)"
    by code_simp
  have bv: "base_view ?ov = ex_page_view"
    by (simp add: ex_object_view_def)
  have perms:
    "has_add_permission (the_permission_helper ex_page_view) (req_user ?rq)"
    "is_authenticated (req_user ?rq)"
    "can_edit_object (the_permission_helper ex_page_view) (req_user ?rq) (the_instance ?ov)"
    "can_delete_object (the_permission_helper ex_page_view) (req_user ?rq) (the_instance ?ov)"
    "can_unpublish_object (the_permission_helper ex_page_view) (req_user ?rq) (the_instance ?ov)"
    "can_copy_object (the_permission_helper ex_page_view) (req_user ?rq) (the_instance ?ov)"
    by code_simp+
  have parents: "get_valid_parent_pages (the_permission_helper ex_page_view) (req_user ?rq)
                   = [ex_parent]"
    by code_simp
  have vals:
    "PAGES_CREATE_URL_NAME ex_fw = ''wagtailadmin_pages:add''"
    "PAGES_EDIT_URL_NAME ex_fw = ''wagtailadmin_pages:edit''"
    "PAGES_DELETE_URL_NAME ex_fw = ''wagtailadmin_pages:delete''"
    "PAGES_UNPUBLISH_URL_NAME ex_fw = ''wagtailadmin_pages:unpublish''"
    "PAGES_COPY_URL_NAME ex_fw = ''wagtailadmin_pages:copy''"
    "app_label (opts ex_page_view) = ''library''"
    "model_name (opts ex_page_view) = ''book''"
    "pk ex_parent = ''7''"
    "object_id ?ov = ''1''"
    "prime_session_for_redirection ex_page_view ex_world =
       ex_world\<lparr>return_to_index_url := Some ''/admin/library/book/''\<rparr>"
    by code_simp+
  from page_model_views_redirect [OF pm bv, of ?rq ex_fw ex_world] perms parents
  have "CreateView_dispatch ex_fw ex_page_view ?rq ex_world =
          Inr (Redirect (PAGES_CREATE_URL_NAME ex_fw)
                 [app_label (opts ex_page_view), model_name (opts ex_page_view), pk ex_parent],
               prime_session_for_redirection ex_page_view ex_world) \<and>
        EditView_dispatch ex_fw ?ov ?rq ex_world =
          Inr (Redirect (PAGES_EDIT_URL_NAME ex_fw) [object_id ?ov],
               prime_session_for_redirection ex_page_view ex_world) \<and>
        ConfirmDeleteView_dispatch ex_fw ?ov ?rq ex_world =
          Inr (Redirect (PAGES_DELETE_URL_NAME ex_fw) [object_id ?ov],
               prime_session_for_redirection ex_page_view ex_world) \<and>
        UnpublishRedirectView_dispatch ex_fw ?ov ?rq ex_world =
          Inr (Redirect (PAGES_UNPUBLISH_URL_NAME ex_fw) [object_id ?ov],
               prime_session_for_redirection ex_page_view ex_world) \<and>
        CopyRedirectView_dispatch ex_fw ?ov ?rq ex_world =
          Inr (Redirect (PAGES_COPY_URL_NAME ex_fw) [object_id ?ov],
               prime_session_for_redirection ex_page_view ex_world)"
    by blast
  then show ?thesis
    using pm by (simp only: vals simp_thms)
qed

section \<open>A user who is denied\<close>

lemma permission_denied_response_keeps_db:
  "the_db (snd (permission_denied_response w)) = the_db w \<and>
   return_to_index_url (snd (permission_denied_response w)) = return_to_index_url w \<and>
   fst (permission_denied_response w) = Redirect ''wagtailadmin_home'' [] \<and>
   messages (snd (permission_denied_response w)) = messages w @ [ErrorNoPermission]"
  by (simp add: permission_denied_response_def)

lemma IndexView_dispatch_denied:
  assumes "is_authenticated (req_user request)"
    and "get_queryset fw vw (index_params request) (index_query request) = Inr queryset"
    and "\<not> allow_list_view (the_permission_helper vw) (req_user request)"
  shows "IndexView_dispatch fw vw request w = Inr (permission_denied_response w)"
  using assms by (simp add: IndexView_dispatch_def login_required_def)

text \<open>
  C6, as the code has it. When the delegated permission check denies the user, the view
  queues the error message and redirects to the admin home page, and the database and the
  session stay as they were: for \<open>CreateView\<close> and \<open>ChooseParentView\<close> on every request; for
  the inspect, edit, delete, unpublish and copy views on every request of a logged-in user;
  for the index view on every request of a logged-in user on which building the queryset
  raised nothing. (A user who is not logged in is sent to the login page by the views behind
  \<^verbatim>\<open>login_required\<close>, whatever the permission helper says.)
\<close>

theorem denied_user_is_redirected_home:
  "(\<not> has_add_permission (the_permission_helper vw) (req_user request) \<longrightarrow>
      CreateView_dispatch fw vw request w = Inr (permission_denied_response w) \<and>
      ChooseParentView_dispatch fw vw request w = Inr (permission_denied_response w)) \<and>
   (is_authenticated (req_user request) \<longrightarrow>
      (\<not> allow_list_view (the_permission_helper vw) (req_user request) \<and>
       (\<exists>queryset. get_queryset fw vw (index_params request) (index_query request) = Inr queryset)
         \<longrightarrow> IndexView_dispatch fw vw request w = Inr (permission_denied_response w)) \<and>
      (\<not> has_list_permission (the_permission_helper (base_view ov)) (req_user request) \<longrightarrow>
         InspectView_dispatch fw ov request w = Inr (permission_denied_response w)) \<and>
      (\<not> can_edit_object (the_permission_helper (base_view ov)) (req_user request)
            (the_instance ov) \<longrightarrow>
         EditView_dispatch fw ov request w = Inr (permission_denied_response w)) \<and>
      (\<not> can_delete_object (the_permission_helper (base_view ov)) (req_user request)
            (the_instance ov) \<longrightarrow>
         ConfirmDeleteView_dispatch fw ov request w = Inr (permission_denied_response w)) \<and>
      (\<not> can_unpublish_object (the_permission_helper (base_view ov)) (req_user request)
            (the_instance ov) \<longrightarrow>
         UnpublishRedirectView_dispatch fw ov request w = Inr (permission_denied_response w)) \<and>
      (\<not> can_copy_object (the_permission_helper (base_view ov)) (req_user request)
            (the_instance ov) \<longrightarrow>
         CopyRedirectView_dispatch fw ov request w = Inr (permission_denied_response w))) \<and>
   permission_denied_response w =
     (Redirect ''wagtailadmin_home'' [], w\<lparr>messages := messages w @ [ErrorNoPermission]\<rparr>) \<and>
   the_db (snd (permission_denied_response w)) = the_db w \<and>
   return_to_index_url (snd (permission_denied_response w)) = return_to_index_url w"
proof (intro conjI impI)
  assume "\<not> has_add_permission (the_permission_helper vw) (req_user request)"
  then show "CreateView_dispatch fw vw request w = Inr (permission_denied_response w)"
    by (simp add: CreateView_dispatch_def)
next
  assume "\<not> has_add_permission (the_permission_helper vw) (req_user request)"
  then show "ChooseParentView_dispatch fw vw request w = Inr (permission_denied_response w)"
    by (simp add: ChooseParentView_dispatch_def)
next
  assume "is_authenticated (req_user request)"
    and "\<not> allow_list_view (the_permission_helper vw) (req_user request) \<and>
         (\<exists>queryset. get_queryset fw vw (index_params request) (index_query request) = Inr queryset)"
  then show "IndexView_dispatch fw vw request w = Inr (permission_denied_response w)"
    using IndexView_dispatch_denied by blast
next
  assume "is_authenticated (req_user request)"
    and "\<not> has_list_permission (the_permission_helper (base_view ov)) (req_user request)"
  then show "InspectView_dispatch fw ov request w = Inr (permission_denied_response w)"
    by (simp add: InspectView_dispatch_def login_required_def)
next
  assume "is_authenticated (req_user request)"
    and "\<not> can_edit_object (the_permission_helper (base_view ov)) (req_user request)
             (the_instance ov)"
  then show "EditView_dispatch fw ov request w = Inr (permission_denied_response w)"
    by (simp add: EditView_dispatch_def login_required_def)
next
  assume "is_authenticated (req_user request)"
    and "\<not> can_delete_object (the_permission_helper (base_view ov)) (req_user request)
             (the_instance ov)"
  then show "ConfirmDeleteView_dispatch fw ov request w = Inr (permission_denied_response w)"
    by (simp add: ConfirmDeleteView_dispatch_def login_required_def)
next
  assume "is_authenticated (req_user request)"
    and "\<not> can_unpublish_object (the_permission_helper (base_view ov)) (req_user request)
             (the_instance ov)"
  then show "UnpublishRedirectView_dispatch fw ov request w = Inr (permission_denied_response w)"
    by (simp add: UnpublishRedirectView_dispatch_def login_required_def)
next
  assume "is_authenticated (req_user request)"
    and "\<not> can_copy_object (the_permission_helper (base_view ov)) (req_user request)
             (the_instance ov)"
  then show "CopyRedirectView_dispatch fw ov request w = Inr (permission_denied_response w)"
    by (simp add: CopyRedirectView_dispatch_def login_required_def)
next
  show "permission_denied_response w =
        (Redirect ''wagtailadmin_home'' [], w\<lparr>messages := messages w @ [ErrorNoPermission]\<rparr>)"
    by (simp add: permission_denied_response_def)
next
  show "the_db (snd (permission_denied_response w)) = the_db w"
    by (simp add: permission_denied_response_keeps_db)
next
  show "return_to_index_url (snd (permission_denied_response w)) = return_to_index_url w"
    by (simp add: permission_denied_response_keeps_db)
qed

theorem denied_user_is_redirected_home_witness:
  "\<not> has_add_permission (the_permission_helper ex_view) ex_guest \<and>
   is_authenticated ex_guest \<and>
   CreateView_dispatch ex_fw ex_view (ex_request HttpPost ex_guest [] [(''title'', ''Emma'')])
       ex_world =
     Inr (Redirect ''wagtailadmin_home'' [], ex_world\<lparr>messages := [ErrorNoPermission]\<rparr>) \<and>
   IndexView_dispatch ex_fw ex_view (ex_request HttpGet ex_guest [(''title'', ''Emma'')] [])
       ex_world =
     Inr (Redirect ''wagtailadmin_home'' [], ex_world\<lparr>messages := [ErrorNoPermission]\<rparr>) \<and>
   ConfirmDeleteView_dispatch ex_fw (ex_object_view ex_view ex_book)
       (ex_request HttpPost ex_guest [] [(''csrfmiddlewaretoken'', ''t'')]) ex_world =
     Inr (Redirect ''wagtailadmin_home'' [], ex_world\<lparr>messages := [ErrorNoPermission]\<rparr>)"
proof -
  let ?post = "ex_request HttpPost ex_guest [] [(''title'', ''Emma'')]"
  let ?get = "ex_request HttpGet ex_guest [(''title'', ''Emma'')] []"
  let ?del = "ex_request HttpPost ex_guest [] [(''csrfmiddlewaretoken'', ''t'')]"
  let ?ov = "ex_object_view ex_view ex_book"
  have u: "req_user ?post = ex_guest" "req_user ?get = ex_guest" "req_user ?del = ex_guest"
    by (simp_all add: ex_request_def)
  have a: "\<not> has_add_permission (the_permission_helper ex_view) ex_guest"
    by code_simp
  have b: "is_authenticated ex_guest"
    by code_simp
  have c: "\<not> allow_list_view (the_permission_helper ex_view) ex_guest"
    by code_simp
  have d: "\<not> can_delete_object (the_permission_helper (base_view ?ov)) ex_guest (the_instance ?ov)"
    by code_simp
  have q: "\<exists>queryset. get_queryset ex_fw ex_view (index_params ?get) (index_query ?get)
             = Inr queryset"
  proof -
    have "isl (get_queryset ex_fw ex_view (index_params ?get) (index_query ?get)) = False"
      by code_simp
    then show ?thesis
      by (cases "get_queryset ex_fw ex_view (index_params ?get) (index_query ?get)") auto
  qed
  have m: "permission_denied_response ex_world =
           (Redirect ''wagtailadmin_home'' [], ex_world\<lparr>messages := [ErrorNoPermission]\<rparr>)"
    by (simp add: permission_denied_response_def ex_world_def)
  from denied_user_is_redirected_home [of ex_view ?post ex_fw ex_world ?ov] a u
  have 1: "CreateView_dispatch ex_fw ex_view ?post ex_world = Inr (permission_denied_response ex_world)"
    by simp
  from denied_user_is_redirected_home [of ex_view ?get ex_fw ex_world ?ov] b c q u
  have 2: "IndexView_dispatch ex_fw ex_view ?get ex_world = Inr (permission_denied_response ex_world)"
    by simp
  from denied_user_is_redirected_home [of ex_view ?del ex_fw ex_world ?ov] b d u
  have 3: "ConfirmDeleteView_dispatch ex_fw ?ov ?del ex_world
             = Inr (permission_denied_response ex_world)"
    by simp
  from a b 1 2 3 show ?thesis
    unfolding m by simp
qed

text \<open>
  C6, as the claim states it, fails twice. A user who is not logged in and whom the
  permission helper denies is sent to the login page by \<open>InspectView\<close>, with no error message;
  and a logged-in user whom the helper denies the list view gets an exception from
  \<open>IndexView\<close>, not the redirect, when the query string holds a lookup that is not allowed.
\<close>

theorem denied_user_not_always_redirected_home:
  "\<not> has_list_permission (the_permission_helper ex_view) ex_anonymous \<and>
   InspectView_dispatch ex_fw (ex_object_view ex_view ex_book)
       (ex_request HttpGet ex_anonymous [] []) ex_world = Inr (RedirectToLogin, ex_world) \<and>
   \<not> allow_list_view (the_permission_helper ex_view) ex_guest \<and>
   IndexView_dispatch ex_fw ex_view (ex_request HttpGet ex_guest [(''author__name'', ''x'')] [])
       ex_world = Inl (DisallowedModelAdminLookup ''author__name'')"
  by code_simp

section \<open>Looking the object up\<close>

lemma get_object_or_404_Http404: "(get_object_or_404 rows = Inl Http404) = (rows = [])"
  by (auto simp: get_object_or_404_def split: list.splits)

lemma ObjectSpecificView_init_Http404:
  "(ObjectSpecificView_init fw vw database oid = Inl Http404) =
   (\<not> list_ex (\<lambda>x. pk x = quote fw oid) (objects database))"
proof -
  have "(ObjectSpecificView_init fw vw database oid = Inl Http404) =
        (get_object_or_404 (filter (\<lambda>x. pk x = quote fw oid) (objects database)) = Inl Http404)"
    by (auto simp: ObjectSpecificView_init_def Let_def split: sum.splits)
  then show ?thesis
    by (simp add: get_object_or_404_Http404 filter_empty_conv list_ex_iff)
qed

text \<open>
  C8 at an object id with an underscore in it. No row has the primary key \<^verbatim>\<open>a_b\<close>, yet the
  view for the object id \<^verbatim>\<open>a_b\<close> is constructed, on the row whose key is the quoted id
  \<^verbatim>\<open>a_5Fb\<close>; and where a row has the key \<^verbatim>\<open>a_b\<close>, the same object id raises \<^verbatim>\<open>Http404\<close>. The
  filter compares the primary key with \<^verbatim>\<open>self.pk_safe\<close>, the id as quoted for a URL.
\<close>

theorem object_id_is_quoted_before_lookup:
  "\<not> list_ex (\<lambda>x. pk x = ''a_b'') [\<lparr>pk = ''a_5Fb'', label = ''other''\<rparr>] \<and>
   ObjectSpecificView_init ex_fw ex_view
       \<lparr>objects = [\<lparr>pk = ''a_5Fb'', label = ''other''\<rparr>], related_rows = []\<rparr> ''a_b'' =
     Inr \<lparr>base_view = ex_view, object_id = ''a_b'', pk_safe = ''a_5Fb'',
          the_instance = \<lparr>pk = ''a_5Fb'', label = ''other''\<rparr>\<rparr> \<and>
   ObjectSpecificView_init ex_fw ex_view
       \<lparr>objects = [\<lparr>pk = ''a_b'', label = ''wanted''\<rparr>], related_rows = []\<rparr> ''a_b'' =
     Inl Http404"
proof -
  have q: "quote ex_fw ''a_b'' = ''a_5Fb''"
    by code_simp
  show ?thesis
    by (simp add: ObjectSpecificView_init_def Let_def q get_object_or_404_def)
qed

section \<open>Deleting an object\<close>








section \<open>A lookup that is not allowed\<close>








section \<open>The page of the index\<close>

lemma map_of_querydict_items_from:
  "map_of (foldl (\<lambda>acc (k, v). AList.update k v acc) acc g) k =
   (case map_of (rev g) k of None \<Rightarrow> map_of acc k | Some v \<Rightarrow> Some v)"
proof (induction g arbitrary: acc)
  case Nil
  then show ?case by simp
next
  case (Cons kv g)
  obtain k' v' where kv: "kv = (k', v')" by (cases kv)
  show ?case
    using Cons [of "AList.update k' v' acc"] kv
    by (auto simp: update_conv' map_add_def split: option.splits)
qed

lemma map_of_querydict_items: "map_of (querydict_items g) k = querydict_get g k"
  unfolding querydict_items_def querydict_get_def
  by (simp add: map_of_querydict_items_from split: option.splits)

lemma map_of_index_params:
  "map_of (index_params request) k =
   (if k = PAGE_VAR \<or> k = ERROR_FLAG then None else querydict_get (GET request) k)"
  by (simp add: index_params_def delete_conv' map_of_querydict_items)

lemma index_page_num_cases:
  "(querydict_get (GET request) PAGE_VAR = None \<longrightarrow> index_page_num request = 0) \<and>
   (\<forall>s. querydict_get (GET request) PAGE_VAR = Some s \<longrightarrow>
        (py_int s = None \<longrightarrow> index_page_num request = 0) \<and>
        (\<forall>i. py_int s = Some i \<longrightarrow> index_page_num request = i))"
  by (simp add: index_page_num_def)

lemma last_page_number_pos: "0 < per_page \<Longrightarrow> 1 \<le> last_page_number per_page n"
proof -
  assume p: "0 < per_page"
  have "per_page \<le> max 1 n + per_page - 1" by simp
  then have "per_page div per_page \<le> (max 1 n + per_page - 1) div per_page"
    by (rule div_le_mono)
  with p show ?thesis by (simp add: last_page_number_def)
qed

lemma paginator_page_in_range:
  assumes "0 < per_page" and "1 \<le> n" and "n \<le> last_page_number per_page (length rows)"
  shows "paginator_page per_page rows n =
         Inr \<lparr>number = n, object_list = page_rows per_page rows n\<rparr>"
  using assms
  by (simp add: paginator_page_def num_pages_def last_page_number_def page_rows_def)

lemma paginator_page_out_of_range:
  assumes "0 < per_page" and "\<not> (1 \<le> n \<and> n \<le> last_page_number per_page (length rows))"
  shows "paginator_page per_page rows n = Inl EmptyPage"
  using assms
  by (auto simp: paginator_page_def num_pages_def last_page_number_def)

lemma paginator_page_or_first:
  assumes "0 < per_page"
  shows "(case paginator_page per_page rows (page_num + 1) of
            Inl e \<Rightarrow> if is_invalid_page e then paginator_page per_page rows 1 else Inl e
          | Inr page_obj \<Rightarrow> Inr page_obj) =
         Inr \<lparr>number = shown_page_number per_page (length rows) page_num,
              object_list = page_rows per_page rows
                              (shown_page_number per_page (length rows) page_num)\<rparr>"
proof (cases "1 \<le> page_num + 1 \<and> page_num + 1 \<le> last_page_number per_page (length rows)")
  case True
  then have "paginator_page per_page rows (page_num + 1) =
             Inr \<lparr>number = page_num + 1, object_list = page_rows per_page rows (page_num + 1)\<rparr>"
    using assms by (simp add: paginator_page_in_range)
  then show ?thesis using True by (simp add: shown_page_number_def)
next
  case False
  then have a: "paginator_page per_page rows (page_num + 1) = Inl EmptyPage"
    using assms by (rule paginator_page_out_of_range [rotated])
  have b: "paginator_page per_page rows 1 =
           Inr \<lparr>number = 1, object_list = page_rows per_page rows 1\<rparr>"
    using assms last_page_number_pos [OF assms, of "length rows"]
    by (simp add: paginator_page_in_range)
  have s: "shown_page_number per_page (length rows) page_num = 1"
    using False by (auto simp: shown_page_number_def)
  show ?thesis
    by (simp only: a b s sum.case is_invalid_page_def simp_thms if_True)
qed

lemma IndexView_get_context_data_page:
  assumes "get_queryset fw vw (index_params request) (index_query request) = Inr queryset"
    and "0 < list_per_page (the_model_admin vw)"
  shows "\<exists>ctx. IndexView_get_context_data fw vw request w = Inr ctx \<and>
           map_of ctx ''page_obj'' =
             Some (CPage \<lparr>number = shown_page_number (list_per_page (the_model_admin vw))
                                      (length (run_query fw (the_db w) queryset))
                                      (index_page_num request),
                          object_list = page_rows (list_per_page (the_model_admin vw))
                                          (run_query fw (the_db w) queryset)
                                          (shown_page_number (list_per_page (the_model_admin vw))
                                             (length (run_query fw (the_db w) queryset))
                                             (index_page_num request))\<rparr>) \<and>
           map_of ctx ''object_list'' =
             Some (CObjs (page_rows (list_per_page (the_model_admin vw))
                            (run_query fw (the_db w) queryset)
                            (shown_page_number (list_per_page (the_model_admin vw))
                               (length (run_query fw (the_db w) queryset))
                               (index_page_num request))))"
  unfolding IndexView_get_context_data_def Let_def assms(1) sum.case
    paginator_page_or_first [OF assms(2)]
  by simp

lemma IndexView_dispatch_get:
  assumes "is_authenticated (req_user request)"
    and "allow_list_view (the_permission_helper vw) (req_user request)"
    and "req_method request = HttpGet"
    and "get_queryset fw vw (index_params request) (index_query request) = Inr queryset"
  shows "IndexView_dispatch fw vw request w = IndexView_get fw vw request w"
  using assms
  by (simp add: IndexView_dispatch_def login_required_def WMABaseView_dispatch_def)

lemma IndexView_get_renders:
  assumes "IndexView_get_context_data fw vw request w = Inr ctx"
  shows "\<exists>w'. IndexView_get fw vw request w = Inr (Render (index_template (the_model_admin vw)) ctx, w')
              \<and> the_db w' = the_db w \<and> messages w' = messages w"
  using assms by (auto simp: IndexView_get_def split: option.splits)

lemma query_string_params_plain: "query_string_params ps [] [] = ps"
  by (simp add: query_string_params_def)

text \<open>
  C7. A GET of the index by a logged-in user who may see the list, where the queryset is
  built without an exception and \<^verbatim>\<open>list_per_page\<close> is positive, renders the index
  template with page \<open>p + 1\<close> of the paginated result queryset when there is such a page, and
  with the first page otherwise. The number \<open>p\<close> is 0 when the query string has no \<^verbatim>\<open>p\<close> or
  one that \<^verbatim>\<open>int()\<close> does not parse, and the parsed integer otherwise. The retained
  parameters, which the filters and the query strings are built from, have neither \<^verbatim>\<open>p\<close>
  nor \<^verbatim>\<open>e\<close>, and every other key with the value the query string gives it.
\<close>

theorem index_page_is_p_plus_one:
  assumes "is_authenticated (req_user request)"
    and "allow_list_view (the_permission_helper vw) (req_user request)"
    and "req_method request = HttpGet"
    and "get_queryset fw vw (index_params request) (index_query request) = Inr queryset"
    and "0 < list_per_page (the_model_admin vw)"
  shows
    "(\<exists>ctx w'. IndexView_dispatch fw vw request w =
                 Inr (Render (index_template (the_model_admin vw)) ctx, w') \<and>
        the_db w' = the_db w \<and>
        map_of ctx ''page_obj'' =
          Some (CPage \<lparr>number = shown_page_number (list_per_page (the_model_admin vw))
                                   (length (run_query fw (the_db w) queryset))
                                   (index_page_num request),
                       object_list = page_rows (list_per_page (the_model_admin vw))
                                       (run_query fw (the_db w) queryset)
                                       (shown_page_number (list_per_page (the_model_admin vw))
                                          (length (run_query fw (the_db w) queryset))
                                          (index_page_num request))\<rparr>) \<and>
        map_of ctx ''object_list'' =
          Some (CObjs (page_rows (list_per_page (the_model_admin vw))
                         (run_query fw (the_db w) queryset)
                         (shown_page_number (list_per_page (the_model_admin vw))
                            (length (run_query fw (the_db w) queryset))
                            (index_page_num request))))) \<and>
     (querydict_get (GET request) PAGE_VAR = None \<longrightarrow> index_page_num request = 0) \<and>
     (\<forall>s. querydict_get (GET request) PAGE_VAR = Some s \<longrightarrow>
          (py_int s = None \<longrightarrow> index_page_num request = 0) \<and>
          (\<forall>i. py_int s = Some i \<longrightarrow> index_page_num request = i)) \<and>
     (\<forall>k. map_of (index_params request) k =
            (if k = PAGE_VAR \<or> k = ERROR_FLAG then None else querydict_get (GET request) k)) \<and>
     query_string_params (index_params request) [] [] = index_params request \<and>
     get_filters_params (index_params request) None =
       AList.delete SEARCH_VAR (AList.delete ORDER_VAR
         (AList.delete ORDER_TYPE_VAR (index_params request)))"
proof (intro conjI)
  from IndexView_get_context_data_page [OF assms(4,5), of w]
  obtain ctx where ctx:
    "IndexView_get_context_data fw vw request w = Inr ctx"
    "map_of ctx ''page_obj'' =
       Some (CPage \<lparr>number = shown_page_number (list_per_page (the_model_admin vw))
                                (length (run_query fw (the_db w) queryset))
                                (index_page_num request),
                    object_list = page_rows (list_per_page (the_model_admin vw))
                                    (run_query fw (the_db w) queryset)
                                    (shown_page_number (list_per_page (the_model_admin vw))
                                       (length (run_query fw (the_db w) queryset))
                                       (index_page_num request))\<rparr>)"
    "map_of ctx ''object_list'' =
       Some (CObjs (page_rows (list_per_page (the_model_admin vw))
                      (run_query fw (the_db w) queryset)
                      (shown_page_number (list_per_page (the_model_admin vw))
                         (length (run_query fw (the_db w) queryset))
                         (index_page_num request))))"
    by blast
  from IndexView_get_renders [OF ctx(1)] obtain w' where w':
    "IndexView_get fw vw request w = Inr (Render (index_template (the_model_admin vw)) ctx, w')"
    "the_db w' = the_db w"
    by blast
  have "IndexView_dispatch fw vw request w =
        Inr (Render (index_template (the_model_admin vw)) ctx, w')"
    using IndexView_dispatch_get [OF assms(1-4), of w] w'(1) by simp
  with ctx(2,3) w'(2)
  show "\<exists>ctx w'. IndexView_dispatch fw vw request w =
                 Inr (Render (index_template (the_model_admin vw)) ctx, w') \<and>
        the_db w' = the_db w \<and>
        map_of ctx ''page_obj'' =
          Some (CPage \<lparr>number = shown_page_number (list_per_page (the_model_admin vw))
                                   (length (run_query fw (the_db w) queryset))
                                   (index_page_num request),
                       object_list = page_rows (list_per_page (the_model_admin vw))
                                       (run_query fw (the_db w) queryset)
                                       (shown_page_number (list_per_page (the_model_admin vw))
                                          (length (run_query fw (the_db w) queryset))
                                          (index_page_num request))\<rparr>) \<and>
        map_of ctx ''object_list'' =
          Some (CObjs (page_rows (list_per_page (the_model_admin vw))
                         (run_query fw (the_db w) queryset)
                         (shown_page_number (list_per_page (the_model_admin vw))
                            (length (run_query fw (the_db w) queryset))
                            (index_page_num request))))"
    by (intro exI [of _ ctx] exI [of _ w']) simp
next
  show "querydict_get (GET request) PAGE_VAR = None \<longrightarrow> index_page_num request = 0"
    using index_page_num_cases by blast
next
  show "\<forall>s. querydict_get (GET request) PAGE_VAR = Some s \<longrightarrow>
          (py_int s = None \<longrightarrow> index_page_num request = 0) \<and>
          (\<forall>i. py_int s = Some i \<longrightarrow> index_page_num request = i)"
    using index_page_num_cases by blast
next
  show "\<forall>k. map_of (index_params request) k =
            (if k = PAGE_VAR \<or> k = ERROR_FLAG then None else querydict_get (GET request) k)"
    using map_of_index_params by blast
next
  show "query_string_params (index_params request) [] [] = index_params request"
    by (rule query_string_params_plain)
next
  show "get_filters_params (index_params request) None =
       AList.delete SEARCH_VAR (AList.delete ORDER_VAR
         (AList.delete ORDER_TYPE_VAR (index_params request)))"
    by (rule get_filters_params_self)
qed

theorem index_page_is_p_plus_one_witness:
  "index_page_num (ex_request HttpGet ex_editor
      [(''p'', ''1''), (''e'', ''1''), (''title'', ''x'')] []) = 1 \<and>
   index_page_num (ex_request HttpGet ex_editor [(''p'', ''two'')] []) = 0 \<and>
   shown_page_number 2 3 1 = 2 \<and>
   shown_page_number 2 3 7 = 1 \<and>
   index_params (ex_request HttpGet ex_editor
      [(''p'', ''1''), (''e'', ''1''), (''title'', ''x'')] []) = [(''title'', ''x'')] \<and>
   (\<exists>ctx w'. IndexView_dispatch ex_fw ex_view
        (ex_request HttpGet ex_editor [(''p'', ''1''), (''e'', ''1''), (''title'', ''x'')] [])
        ex_world = Inr (Render ''index.html'' ctx, w') \<and>
      map_of ctx ''page_obj'' =
        Some (CPage \<lparr>number = 2, object_list = [\<lparr>pk = ''3'', label = ''Ulysses''\<rparr>]\<rparr>))"
proof -
  let ?rq = "ex_request HttpGet ex_editor [(''p'', ''1''), (''e'', ''1''), (''title'', ''x'')] []"
  let ?qs = "ex_base_queryset\<lparr>qs_filters := [FilterKwargs [(''title'', VStr ''x'')]],
                              order_by := [''title'', ''-pk'']\<rparr>"
  have h: "is_authenticated (req_user ?rq)"
    "allow_list_view (the_permission_helper ex_view) (req_user ?rq)"
    "req_method ?rq = HttpGet"
    "0 < list_per_page (the_model_admin ex_view)"
    by code_simp+
  have q: "get_queryset ex_fw ex_view (index_params ?rq) (index_query ?rq) = Inr ?qs"
    by code_simp
  have v: "index_page_num ?rq = 1"
    "index_page_num (ex_request HttpGet ex_editor [(''p'', ''two'')] []) = 0"
    "shown_page_number 2 3 1 = 2"
    "shown_page_number 2 3 7 = 1"
    "index_params ?rq = [(''title'', ''x'')]"
    by code_simp+
  have r: "index_template (the_model_admin ex_view) = ''index.html''"
    "list_per_page (the_model_admin ex_view) = 2"
    "run_query ex_fw (the_db ex_world) ?qs =
       [ex_book, \<lparr>pk = ''2'', label = ''Emma''\<rparr>, \<lparr>pk = ''3'', label = ''Ulysses''\<rparr>]"
    "page_rows 2 [ex_book, \<lparr>pk = ''2'', label = ''Emma''\<rparr>, \<lparr>pk = ''3'', label = ''Ulysses''\<rparr>] 2 =
       [\<lparr>pk = ''3'', label = ''Ulysses''\<rparr>]"
    by code_simp+
  from index_page_is_p_plus_one [OF h(1-3) q h(4), of ex_world]
  obtain ctx w' where c:
    "IndexView_dispatch ex_fw ex_view ?rq ex_world =
       Inr (Render (index_template (the_model_admin ex_view)) ctx, w')"
    "map_of ctx ''page_obj'' =
       Some (CPage \<lparr>number = shown_page_number (list_per_page (the_model_admin ex_view))
                                (length (run_query ex_fw (the_db ex_world) ?qs))
                                (index_page_num ?rq),
                    object_list = page_rows (list_per_page (the_model_admin ex_view))
                                    (run_query ex_fw (the_db ex_world) ?qs)
                                    (shown_page_number (list_per_page (the_model_admin ex_view))
                                       (length (run_query ex_fw (the_db ex_world) ?qs))
                                       (index_page_num ?rq))\<rparr>)"
    by blast
  have n: "length [ex_book, \<lparr>pk = ''2'', label = ''Emma''\<rparr>, \<lparr>pk = ''3'', label = ''Ulysses''\<rparr>] = 3"
    by simp
  from c(2) have p: "map_of ctx ''page_obj'' =
        Some (CPage \<lparr>number = 2, object_list = [\<lparr>pk = ''3'', label = ''Ulysses''\<rparr>]\<rparr>)"
    by (simp only: r v n)
  from c(1) have d: "IndexView_dispatch ex_fw ex_view ?rq ex_world = Inr (Render ''index.html'' ctx, w')"
    by (simp only: r)
  from d p have "\<exists>ctx w'. IndexView_dispatch ex_fw ex_view ?rq ex_world =
                    Inr (Render ''index.html'' ctx, w') \<and>
                  map_of ctx ''page_obj'' =
                    Some (CPage \<lparr>number = 2, object_list = [\<lparr>pk = ''3'', label = ''Ulysses''\<rparr>]\<rparr>)"
    by blast
  with v show ?thesis by blast
qed

end
